theory Spec2Isabelle
  imports Main
begin

text \<open>
  A shallow embedding of three parts of the block-storage service cinder, with the
  properties its specification states of them:
  \<^item> the backup API, \<^verbatim>\<open>cinder/backup/api.py\<close>: \<^verbatim>\<open>create\<close> and \<^verbatim>\<open>restore\<close>, with the
    polling loop of a restore that has to create its destination volume;
  \<^item> the quota sets controller, \<^verbatim>\<open>cinder/api/contrib/quotas.py\<close>: \<^verbatim>\<open>update\<close> and the
    validation of a limit;
  \<^item> the volume manager's \<^verbatim>\<open>extend\<close>, \<^verbatim>\<open>delete\<close> and \<^verbatim>\<open>attach\<close> and the LVM driver's
    \<^verbatim>\<open>migrate_volume\<close>, whose code is not among the sources: these follow the spec and
    the tests of \<^verbatim>\<open>cinder/tests/test_volume.py\<close>.
  A request is a function from the state before it to its result and the state after it.
\<close>

section \<open>Data model\<close>

text \<open>
  Exceptions of \<^verbatim>\<open>cinder.exception\<close> and the HTTP errors of \<^verbatim>\<open>webob.exc\<close> that the
  modelled code raises. A raise is the value \<open>Inl e\<close>; the store as it stands at the raise
  is returned beside it, as a Python exception leaves every earlier write in place.
\<close>

datatype exn =
    PolicyNotAuthorized
  | BackupNotFound
  | VolumeNotFound
  | InvalidBackup
  | InvalidVolume
  | ServiceNotFound
  | KeyError
  | HTTPBadRequest
  | HTTPForbidden
  | ProjectQuotaNotFound
  | AdminRequired
  | InvalidInput
  | InvalidVolumeAttachMode
  | VolumeIsBusy
  | OverQuota
  | CinderException

record ctxt =
  user_id :: string
  project_id :: string
  is_admin :: bool

text \<open>
  A volume row. Statuses are the strings the code compares (\<^verbatim>\<open>'available'\<close>,
  \<^verbatim>\<open>'creating'\<close>, ...). Admin metadata is an ordered list of key/value rows, as
  \<^verbatim>\<open>vol['volume_admin_metadata']\<close> is read by index in the tests.
\<close>

record volume =
  v_id :: string
  v_status :: string
  v_attach_status :: string
  v_size :: int
  v_host :: string
  v_availability_zone :: string
  v_instance_uuid :: "string option"
  v_attached_host :: "string option"
  v_mountpoint :: "string option"
  v_admin_metadata :: "(string \<times> string) list"

record backup =
  b_id :: string
  b_user_id :: string
  b_project_id :: string
  b_display_name :: "string option"
  b_display_description :: "string option"
  b_volume_id :: string
  b_status :: string
  b_container :: "string option"
  b_size :: "int option"
  b_host :: string

record service =
  srv_topic :: string
  srv_availability_zone :: string
  srv_host :: string
  srv_disabled :: bool

text \<open>The casts of \<^verbatim>\<open>cinder.backup.rpcapi.BackupAPI\<close> that the backup API sends.\<close>

datatype rpc =
    Create_backup string string string
  | Restore_backup string string string

text \<open>
  Every write to the record store and every cast is appended to a trace, so that the order
  of the effects of one request can be stated.
\<close>

datatype event =
    VolumeUpdate string string
  | BackupUpdate string string
  | BackupCreate string
  | Cast rpc

record db =
  volumes :: "string \<rightharpoonup> volume"
  backups :: "string \<rightharpoonup> backup"
  services :: "service list"
  trace :: "event list"

section \<open>Backup API (cinder/backup/api.py)\<close>

text \<open>
  What \<^verbatim>\<open>API\<close> uses and \<^verbatim>\<open>src/\<close> does not hold is a parameter:
  \<^item> \<open>enforce\<close>: \<^verbatim>\<open>cinder.policy.enforce\<close>, the policy oracle, by action string;
  \<^item> \<open>service_is_up\<close>: \<^verbatim>\<open>utils.service_is_up\<close>;
  \<^item> \<open>backup_topic\<close>: \<^verbatim>\<open>CONF.backup_topic\<close>;
  \<^item> \<open>volume_create\<close>: \<^verbatim>\<open>cinder.volume.API.create(context, size, name, description)\<close>;
  \<^item> \<open>sleep\<close>: what the other threads and hosts do to the record store during the
    \<open>k\<close>-th \<^verbatim>\<open>greenthread.sleep(1)\<close> of one request.
\<close>

record env =
  enforce :: "ctxt \<Rightarrow> string \<Rightarrow> bool"
  service_is_up :: "service \<Rightarrow> bool"
  backup_topic :: string
  volume_create :: "ctxt \<Rightarrow> int \<Rightarrow> string \<Rightarrow> string \<Rightarrow> db \<Rightarrow> (exn + volume) \<times> db"
  sleep :: "nat \<Rightarrow> db \<Rightarrow> db"

text \<open>\<^verbatim>\<open>check_policy(context, action)\<close>: enforces \<^verbatim>\<open>'backup:%s' % action\<close>.\<close>

definition check_policy :: "env \<Rightarrow> ctxt \<Rightarrow> string \<Rightarrow> bool" where
  "check_policy e context action = enforce e context (''backup:'' @ action)"

text \<open>
  The record store (\<^verbatim>\<open>cinder.db\<close>), \<^verbatim>\<open>cinder.volume.API.get\<close> and the RPC layer are not
  in \<^verbatim>\<open>src/\<close>; the operations of theirs that the backup API calls follow, each as
  section 4.3 or 4.4 of the spec has it.
\<close>

text \<open>
  Modelled from the spec: \<^verbatim>\<open>db.backup_get\<close> is missing. Section 4.3: a point lookup by
  id; section 7: an absent row raises the \<^verbatim>\<open>NotFound\<close> of its kind.
\<close>

definition backup_get :: "string \<Rightarrow> db \<Rightarrow> exn + backup" where
  "backup_get backup_id s =
     (case backups s backup_id of None \<Rightarrow> Inl BackupNotFound | Some b \<Rightarrow> Inr b)"

text \<open>
  Modelled from the spec: \<^verbatim>\<open>cinder.volume.API.get\<close> is missing. Section 4.3: a point
  lookup by id; an absent row raises \<^verbatim>\<open>VolumeNotFound\<close>.
\<close>

definition volume_api_get :: "string \<Rightarrow> db \<Rightarrow> exn + volume" where
  "volume_api_get volume_id s =
     (case volumes s volume_id of None \<Rightarrow> Inl VolumeNotFound | Some v \<Rightarrow> Inr v)"

text \<open>
  Modelled from the spec: \<^verbatim>\<open>db.volume_update(context, volume_id, {'status': st})\<close> is
  missing. Section 4.3: a field-level update of the row.
\<close>

definition volume_update :: "string \<Rightarrow> string \<Rightarrow> db \<Rightarrow> (exn + unit) \<times> db" where
  "volume_update volume_id st s =
     (case volumes s volume_id of
        None \<Rightarrow> (Inl VolumeNotFound, s)
      | Some v \<Rightarrow>
          (Inr (), s\<lparr>volumes := (volumes s)(volume_id \<mapsto> v\<lparr>v_status := st\<rparr>),
                     trace := trace s @ [VolumeUpdate volume_id st]\<rparr>))"

text \<open>
  Modelled from the spec: \<^verbatim>\<open>db.backup_update(context, backup_id, {'status': st})\<close> is
  missing. Section 4.3: a field-level update of the row.
\<close>

definition backup_update :: "string \<Rightarrow> string \<Rightarrow> db \<Rightarrow> (exn + unit) \<times> db" where
  "backup_update backup_id st s =
     (case backups s backup_id of
        None \<Rightarrow> (Inl BackupNotFound, s)
      | Some b \<Rightarrow>
          (Inr (), s\<lparr>backups := (backups s)(backup_id \<mapsto> b\<lparr>b_status := st\<rparr>),
                     trace := trace s @ [BackupUpdate backup_id st]\<rparr>))"

text \<open>
  Modelled from the spec: \<^verbatim>\<open>db.backup_create(context, options)\<close> is missing. Section
  4.3: creation of a row; it stores the options under the id the store assigns,
  \<open>new_id\<close>, and returns the row.
\<close>

definition backup_create :: "string \<Rightarrow> backup \<Rightarrow> db \<Rightarrow> backup \<times> db" where
  "backup_create new_id options s =
     (let b = options\<lparr>b_id := new_id\<rparr>
      in (b, s\<lparr>backups := (backups s)(new_id \<mapsto> b),
                trace := trace s @ [BackupCreate new_id]\<rparr>))"

text \<open>
  Modelled from the spec: \<^verbatim>\<open>db.service_get_all_by_topic(ctxt, topic)\<close> is missing: the
  service rows of the topic.
\<close>

definition service_get_all_by_topic :: "string \<Rightarrow> db \<Rightarrow> service list" where
  "service_get_all_by_topic topic s = filter (\<lambda>srv. srv_topic srv = topic) (services s)"

text \<open>
  Modelled from the spec: \<^verbatim>\<open>cinder.backup.rpcapi.BackupAPI\<close> is missing. Section 4.4: a
  cast is fire-and-forget; sending it is recorded in the trace.
\<close>

definition cast :: "rpc \<Rightarrow> db \<Rightarrow> db" where
  "cast m s = s\<lparr>trace := trace s @ [Cast m]\<rparr>"

text \<open>
  Python's \<^verbatim>\<open>str.partition(sep)\<close> for a one-character separator: the part before the
  first occurrence, the separator, the part after it; the whole string and two empty
  strings when the separator does not occur.
\<close>

definition str_partition :: "char \<Rightarrow> string \<Rightarrow> string \<times> string \<times> string" where
  "str_partition sep str =
     (if sep \<in> set str
      then (takeWhile (\<lambda>c. c \<noteq> sep) str, [sep], tl (dropWhile (\<lambda>c. c \<noteq> sep) str))
      else (str, [], []))"

text \<open>\<^verbatim>\<open>API.get\<close>.\<close>

definition get :: "env \<Rightarrow> ctxt \<Rightarrow> string \<Rightarrow> db \<Rightarrow> exn + backup" where
  "get e context backup_id s =
     (if \<not> check_policy e context ''get'' then Inl PolicyNotAuthorized
      else backup_get backup_id s)"

text \<open>\<^verbatim>\<open>API._is_backup_service_enabled\<close>: the \<^verbatim>\<open>for srv in services\<close> loop.\<close>

fun is_backup_service_enabled_loop :: "env \<Rightarrow> volume \<Rightarrow> string \<Rightarrow> service list \<Rightarrow> bool" where
  "is_backup_service_enabled_loop e volume volume_host [] = False"
| "is_backup_service_enabled_loop e volume volume_host (srv # srvs) =
     (if srv_availability_zone srv = v_availability_zone volume \<and>
         srv_host srv = volume_host \<and> \<not> srv_disabled srv \<and> service_is_up e srv
      then True
      else is_backup_service_enabled_loop e volume volume_host srvs)"

definition is_backup_service_enabled :: "env \<Rightarrow> volume \<Rightarrow> string \<Rightarrow> db \<Rightarrow> bool" where
  "is_backup_service_enabled e volume volume_host s =
     is_backup_service_enabled_loop e volume volume_host
       (service_get_all_by_topic (backup_topic e) s)"

text \<open>
  \<^verbatim>\<open>API.create\<close>. \<open>new_id\<close> is the id the record store gives the new backup row.
\<close>

definition create ::
  "env \<Rightarrow> ctxt \<Rightarrow> string option \<Rightarrow> string option \<Rightarrow> string \<Rightarrow> string option \<Rightarrow> string \<Rightarrow> db
     \<Rightarrow> (exn + backup) \<times> db" where
  "create e context name description volume_id container new_id s =
     (if \<not> check_policy e context ''create'' then (Inl PolicyNotAuthorized, s)
      else
        (case volume_api_get volume_id s of
           Inl x \<Rightarrow> (Inl x, s)
         | Inr volume \<Rightarrow>
             if v_status volume \<noteq> ''available'' then (Inl InvalidVolume, s)
             else
               let volume_host = fst (str_partition CHR ''@'' (v_host volume)) in
               if \<not> is_backup_service_enabled e volume volume_host s
               then (Inl ServiceNotFound, s)
               else
                 (case volume_update volume_id ''backing-up'' s of
                    (Inl x, s1) \<Rightarrow> (Inl x, s1)
                  | (Inr u, s1) \<Rightarrow>
                      let options = \<lparr>b_id = [],
                                     b_user_id = user_id context,
                                     b_project_id = project_id context,
                                     b_display_name = name,
                                     b_display_description = description,
                                     b_volume_id = volume_id,
                                     b_status = ''creating'',
                                     b_container = container,
                                     b_size = Some (v_size volume),
                                     b_host = volume_host\<rparr>
                      in
                        (case backup_create new_id options s1 of
                           (backup, s2) \<Rightarrow>
                             (Inr backup,
                              cast (Create_backup (b_host backup) (b_id backup) volume_id) s2)))))"

text \<open>
  \<^verbatim>\<open>API.restore\<close>, the \<^verbatim>\<open>while True\<close> loop: \<open>k\<close> counts the sleeps so far. The loop
  has no exit but the \<^verbatim>\<open>break\<close> (and an exception of the lookup), so it is a partial
  function: \<open>None\<close> is the loop that never ends.
\<close>

partial_function (option) wait_while_creating ::
  "env \<Rightarrow> string \<Rightarrow> nat \<Rightarrow> db \<Rightarrow> ((exn + volume) \<times> db) option" where
  "wait_while_creating e volume_id k s =
     (case volume_api_get volume_id s of
        Inl x \<Rightarrow> Some (Inl x, s)
      | Inr volume \<Rightarrow>
          if v_status volume \<noteq> ''creating'' then Some (Inr volume, s)
          else wait_while_creating e volume_id (Suc k) (sleep e k s))"

text \<open>
  \<^verbatim>\<open>API.restore\<close>, from \<^verbatim>\<open>if volume['status'] != "available"\<close> to the end: the
  two checks on the volume in hand, the two status updates, the cast.
\<close>

definition restore_checked ::
  "backup \<Rightarrow> string \<Rightarrow> volume \<Rightarrow> string \<Rightarrow> int \<Rightarrow> db \<Rightarrow> (exn + string \<times> string) \<times> db" where
  "restore_checked backup backup_id volume volume_id sz s =
     (if v_status volume \<noteq> ''available'' then (Inl InvalidVolume, s)
      else if sz > v_size volume then (Inl InvalidVolume, s)
      else
        (case backup_update backup_id ''restoring'' s of
           (Inl x, s1) \<Rightarrow> (Inl x, s1)
         | (Inr u, s1) \<Rightarrow>
             (case volume_update volume_id ''restoring-backup'' s1 of
                (Inl x, s2) \<Rightarrow> (Inl x, s2)
              | (Inr w, s2) \<Rightarrow>
                  (Inr (backup_id, volume_id),
                   cast (Restore_backup (b_host backup) (b_id backup) volume_id) s2))))"

text \<open>\<^verbatim>\<open>API.restore\<close>. \<open>None\<close>: the call never returns.\<close>

definition restore ::
  "env \<Rightarrow> ctxt \<Rightarrow> string \<Rightarrow> string option \<Rightarrow> db \<Rightarrow> ((exn + string \<times> string) \<times> db) option" where
  "restore e context backup_id volume_id s =
     (if \<not> check_policy e context ''restore'' then Some (Inl PolicyNotAuthorized, s)
      else
        (case get e context backup_id s of
           Inl x \<Rightarrow> Some (Inl x, s)
         | Inr backup \<Rightarrow>
             if b_status backup \<noteq> ''available'' then Some (Inl InvalidBackup, s)
             else
               (case b_size backup of
                  None \<Rightarrow> Some (Inl InvalidBackup, s)
                | Some sz \<Rightarrow>
                    (case volume_id of
                       None \<Rightarrow>
                         (case volume_create e context sz (''restore_backup_'' @ backup_id)
                                 ''auto-created_from_restore_from_backup'' s of
                            (Inl x, s1) \<Rightarrow> Some (Inl x, s1)
                          | (Inr created, s1) \<Rightarrow>
                              (case wait_while_creating e (v_id created) 0 s1 of
                                 None \<Rightarrow> None
                               | Some (Inl x, s2) \<Rightarrow> Some (Inl x, s2)
                               | Some (Inr volume, s2) \<Rightarrow>
                                   Some (restore_checked backup backup_id volume
                                           (v_id created) sz s2)))
                     | Some vid \<Rightarrow>
                         (case volume_api_get vid s of
                            Inl x \<Rightarrow> Some (Inl x, s)
                          | Inr volume \<Rightarrow>
                              if v_size volume < sz then Some (Inl InvalidVolume, s)
                              else Some (restore_checked backup backup_id volume vid sz s))))))"

text \<open>The store after the sleeps \<open>k, k + 1, ..., k + n - 1\<close> of the polling loop.\<close>

primrec sleeps :: "env \<Rightarrow> nat \<Rightarrow> nat \<Rightarrow> db \<Rightarrow> db" where
  "sleeps e k 0 s = s"
| "sleeps e k (Suc n) s = sleeps e (Suc k) n (sleep e k s)"

text \<open>The volume is found in status \<^verbatim>\<open>creating\<close>: the loop goes round once more.\<close>

definition still_creating :: "string \<Rightarrow> db \<Rightarrow> bool" where
  "still_creating volume_id s =
     (case volumes s volume_id of None \<Rightarrow> False | Some v \<Rightarrow> v_status v = ''creating'')"

section \<open>Quota sets API (cinder/api/contrib/quotas.py)\<close>

text \<open>
  A value of the JSON request body as Python 2 holds it. \<open>PyInt\<close> is an \<^verbatim>\<open>int\<close>,
  \<open>PyLong\<close> a \<^verbatim>\<open>long\<close> (a JSON integer beyond the machine word), \<open>PyBool\<close> a
  \<^verbatim>\<open>bool\<close>, \<open>PyStr\<close> a string, \<open>PyNone\<close> is \<^verbatim>\<open>None\<close>, and \<open>PyOther\<close> stands
  for the remaining kinds (floats, lists, dicts), none of which is an \<^verbatim>\<open>int\<close>.
\<close>

datatype pyval = PyInt int | PyLong int | PyBool bool | PyStr string | PyNone | PyOther

text \<open>
  \<^verbatim>\<open>isinstance(limit, int)\<close>: in Python \<^verbatim>\<open>bool\<close> is a subclass of \<^verbatim>\<open>int\<close>, and
  \<^verbatim>\<open>long\<close> is not.
\<close>

fun isinstance_int :: "pyval \<Rightarrow> bool" where
  "isinstance_int (PyInt n) = True"
| "isinstance_int (PyBool b) = True"
| "isinstance_int v = False"

text \<open>The integer an instance of \<^verbatim>\<open>int\<close> compares as, and \<^verbatim>\<open>int(limit)\<close> of it.\<close>

fun int_of_pyval :: "pyval \<Rightarrow> int" where
  "int_of_pyval (PyInt n) = n"
| "int_of_pyval (PyBool b) = (if b then 1 else 0)"
| "int_of_pyval v = 0"

text \<open>The quota table of the record store: the hard limit by project and resource.\<close>

type_synonym quota_db = "string \<times> string \<rightharpoonup> int"

text \<open>A value of \<^verbatim>\<open>QUOTAS.get_project_quotas(context, id, usages=False)\<close>.\<close>

record quota_value =
  q_limit :: int

text \<open>
  What \<^verbatim>\<open>QuotaSetsController.update\<close> uses and \<^verbatim>\<open>src/\<close> does not hold is a parameter:
  \<^item> \<open>authorize_update\<close>: the extension authorizer \<^verbatim>\<open>volume_extension:quotas:update\<close>;
  \<^item> \<open>resources\<close>: the resource names for which \<^verbatim>\<open>key in QUOTAS\<close> holds;
  \<^item> \<open>quota_update\<close>, \<open>quota_create\<close>: \<^verbatim>\<open>db.quota_update\<close> and \<^verbatim>\<open>db.quota_create\<close>
    \<^verbatim>\<open>(context, project_id, key, value)\<close>, each with the exception it raises or not and
    the table it leaves;
  \<^item> \<open>get_project_quotas\<close>: \<^verbatim>\<open>QUOTAS.get_project_quotas\<close>.
\<close>

record quota_env =
  authorize_update :: "ctxt \<Rightarrow> bool"
  resources :: "string list"
  quota_update :: "ctxt \<Rightarrow> string \<Rightarrow> string \<Rightarrow> int \<Rightarrow> quota_db \<Rightarrow> (exn + unit) \<times> quota_db"
  quota_create :: "ctxt \<Rightarrow> string \<Rightarrow> string \<Rightarrow> int \<Rightarrow> quota_db \<Rightarrow> (exn + unit) \<times> quota_db"
  get_project_quotas :: "ctxt \<Rightarrow> string \<Rightarrow> quota_db \<Rightarrow> (string \<times> quota_value) list"

text \<open>\<^verbatim>\<open>QuotaSetsController._validate_quota_limit\<close>.\<close>

definition validate_quota_limit :: "pyval \<Rightarrow> exn + unit" where
  "validate_quota_limit lim =
     (if \<not> isinstance_int lim then Inl HTTPBadRequest
      else if int_of_pyval lim < - 1 then Inl HTTPBadRequest
      else Inr ())"

text \<open>\<^verbatim>\<open>QuotaSetsController._get_quotas(context, id)\<close>, with \<^verbatim>\<open>usages=False\<close>.\<close>

definition get_quotas :: "quota_env \<Rightarrow> ctxt \<Rightarrow> string \<Rightarrow> quota_db \<Rightarrow> (string \<times> int) list" where
  "get_quotas e c ident s = map (\<lambda>(k, v). (k, q_limit v)) (get_project_quotas e c ident s)"

text \<open>
  \<^verbatim>\<open>QuotaSetsController.update\<close>, the loop \<^verbatim>\<open>for key in body['quota_set'].keys()\<close>.
  \<open>qs\<close> is the dict \<^verbatim>\<open>body['quota_set']\<close> as the list of its items, and the last but one
  argument the keys still to come, in the order \<^verbatim>\<open>keys()\<close> gives them.
\<close>

fun update_loop ::
  "quota_env \<Rightarrow> ctxt \<Rightarrow> string \<Rightarrow> (string \<times> pyval) list \<Rightarrow> string list \<Rightarrow> quota_db
     \<Rightarrow> (exn + unit) \<times> quota_db" where
  "update_loop e c pid qs [] s = (Inr (), s)"
| "update_loop e c pid qs (k # ks) s =
     (if k \<in> set (resources e) then
        (case map_of qs k of
           None \<Rightarrow> (Inl KeyError, s)
         | Some lim \<Rightarrow>
             (case validate_quota_limit lim of
                Inl x \<Rightarrow> (Inl x, s)
              | Inr _ \<Rightarrow>
                  (case quota_update e c pid k (int_of_pyval lim) s of
                     (Inr _, s1) \<Rightarrow> update_loop e c pid qs ks s1
                   | (Inl x, s1) \<Rightarrow>
                       if x = ProjectQuotaNotFound then
                         (case quota_create e c pid k (int_of_pyval lim) s1 of
                            (Inr _, s2) \<Rightarrow> update_loop e c pid qs ks s2
                          | (Inl y, s2) \<Rightarrow> (Inl y, s2))
                       else if x = AdminRequired then (Inl HTTPForbidden, s1)
                       else (Inl x, s1))))
      else update_loop e c pid qs ks s)"

text \<open>
  \<^verbatim>\<open>QuotaSetsController.update(req, id, body)\<close>. The body is \<open>None\<close> when it has no
  \<^verbatim>\<open>'quota_set'\<close> key, and otherwise the items of \<^verbatim>\<open>body['quota_set']\<close>, a dict: their
  keys are pairwise distinct. The result is the value under \<^verbatim>\<open>'quota_set'\<close> of the
  returned dict.
\<close>

definition update ::
  "quota_env \<Rightarrow> ctxt \<Rightarrow> string \<Rightarrow> (string \<times> pyval) list option \<Rightarrow> quota_db
     \<Rightarrow> (exn + (string \<times> int) list) \<times> quota_db" where
  "update e c ident body s =
     (if \<not> authorize_update e c then (Inl PolicyNotAuthorized, s)
      else case body of
        None \<Rightarrow> (Inl KeyError, s)
      | Some qs \<Rightarrow>
          (case update_loop e c ident qs (map fst qs) s of
             (Inl x, s') \<Rightarrow> (Inl x, s')
           | (Inr _, s') \<Rightarrow> (Inr (get_quotas e c ident s'), s')))"

section \<open>Volume manager and LVM driver\<close>

text \<open>
  The volume API, the volume manager and the LVM driver are not in \<^verbatim>\<open>src/\<close>; only
  their tests are (\<^verbatim>\<open>cinder/tests/test_volume.py\<close>). The definitions of this section are
  modelled from sections 4.1, 4.2 and 4.5 of the spec, with the calls and the outcomes the
  tests show.
\<close>

text \<open>The usage of the \<^verbatim>\<open>gigabytes\<close> quota of the project; a negative limit is unlimited.\<close>

record quota_usage =
  hard_limit :: int
  in_use :: int
  reserved :: int

record manager_state =
  vols :: "string \<rightharpoonup> volume"
  gigabytes :: quota_usage

text \<open>
  The driver contract of section 4.2, as far as the modelled operations call it: each
  operation either succeeds (\<open>None\<close>) or raises an exception.
\<close>

record driver =
  extend_volume_drv :: "volume \<Rightarrow> int \<Rightarrow> exn option"
  delete_volume_drv :: "volume \<Rightarrow> exn option"
  attach_volume_drv :: "volume \<Rightarrow> exn option"

text \<open>
  Modelled from the spec: the quota engine (\<^verbatim>\<open>cinder.quota\<close>) is not in \<^verbatim>\<open>src/\<close>.
  Section 4.1: \<^verbatim>\<open>reserve\<close> holds the delta provisionally or fails with
  \<^verbatim>\<open>OverQuota\<close>, \<^verbatim>\<open>commit\<close> applies the delta to the usage, \<^verbatim>\<open>rollback\<close> discards it.
\<close>

definition reserve :: "int \<Rightarrow> manager_state \<Rightarrow> (exn + int) \<times> manager_state" where
  "reserve delta s =
     (let q = gigabytes s in
      if 0 \<le> hard_limit q \<and> hard_limit q < in_use q + reserved q + delta
      then (Inl OverQuota, s)
      else (Inr delta, s\<lparr>gigabytes := q\<lparr>reserved := reserved q + delta\<rparr>\<rparr>))"

definition commit :: "int \<Rightarrow> manager_state \<Rightarrow> manager_state" where
  "commit delta s =
     s\<lparr>gigabytes := (gigabytes s)\<lparr>in_use := in_use (gigabytes s) + delta,
                                    reserved := reserved (gigabytes s) - delta\<rparr>\<rparr>"

definition rollback :: "int \<Rightarrow> manager_state \<Rightarrow> manager_state" where
  "rollback delta s =
     s\<lparr>gigabytes := (gigabytes s)\<lparr>reserved := reserved (gigabytes s) - delta\<rparr>\<rparr>"

definition set_status :: "string \<Rightarrow> string \<Rightarrow> manager_state \<Rightarrow> manager_state" where
  "set_status vid st s =
     (case vols s vid of
        None \<Rightarrow> s
      | Some v \<Rightarrow> s\<lparr>vols := (vols s)(vid \<mapsto> v\<lparr>v_status := st\<rparr>)\<rparr>)"

text \<open>
  Modelled from the spec: \<^verbatim>\<open>cinder.volume.api.API.extend\<close> is not in \<^verbatim>\<open>src/\<close>.
  Section 4.5, extend: only from \<^verbatim>\<open>available\<close> (else \<^verbatim>\<open>InvalidVolume\<close>, as
  \<^verbatim>\<open>test_extend_volume\<close> has it); the target size must be strictly greater than the
  current one (else \<^verbatim>\<open>InvalidInput\<close>); the status is set to \<^verbatim>\<open>extending\<close> and the
  request is dispatched to the manager.
\<close>

definition api_extend :: "string \<Rightarrow> int \<Rightarrow> manager_state \<Rightarrow> (exn + unit) \<times> manager_state" where
  "api_extend vid new_size s =
     (case vols s vid of
        None \<Rightarrow> (Inl VolumeNotFound, s)
      | Some v \<Rightarrow>
          if v_status v \<noteq> ''available'' then (Inl InvalidVolume, s)
          else if new_size \<le> v_size v then (Inl InvalidInput, s)
          else (Inr (), set_status vid ''extending'' s))"

text \<open>
  Modelled from the spec: \<^verbatim>\<open>VolumeManager.extend_volume\<close> is not in \<^verbatim>\<open>src/\<close>.
  Section 4.5, extend: reserve the incremental quota; on quota failure the status becomes
  \<^verbatim>\<open>error_extending\<close> with no size change; on driver failure the status becomes
  \<^verbatim>\<open>error_extending\<close> with no size change and the quota is rolled back; on success the
  new size is persisted, the status is \<^verbatim>\<open>available\<close> and the quota is committed. As in
  \<^verbatim>\<open>test_extend_volume_manager\<close>, neither failure is raised to the caller.
\<close>

definition manager_extend_volume ::
  "driver \<Rightarrow> string \<Rightarrow> int \<Rightarrow> manager_state \<Rightarrow> (exn + unit) \<times> manager_state" where
  "manager_extend_volume drv vid new_size s =
     (case vols s vid of
        None \<Rightarrow> (Inl VolumeNotFound, s)
      | Some v \<Rightarrow>
          (case reserve (new_size - v_size v) s of
             (Inl x, s1) \<Rightarrow> (Inr (), set_status vid ''error_extending'' s1)
           | (Inr r, s1) \<Rightarrow>
               (case extend_volume_drv drv v new_size of
                  Some x \<Rightarrow> (Inr (), rollback r (set_status vid ''error_extending'' s1))
                | None \<Rightarrow>
                    (Inr (),
                     commit r
                       (s1\<lparr>vols := (vols s1)(vid \<mapsto> v\<lparr>v_size := new_size,
                                                        v_status := ''available''\<rparr>)\<rparr>)))))"

text \<open>
  \<^verbatim>\<open>extend(volume, new_size)\<close> end to end: the API call and, when it dispatched, the
  manager's handling of the dispatch.
\<close>

definition extend :: "driver \<Rightarrow> string \<Rightarrow> int \<Rightarrow> manager_state \<Rightarrow> (exn + unit) \<times> manager_state" where
  "extend drv vid new_size s =
     (case api_extend vid new_size s of
        (Inl x, s1) \<Rightarrow> (Inl x, s1)
      | (Inr u, s1) \<Rightarrow> manager_extend_volume drv vid new_size s1)"

text \<open>
  Modelled from the spec: \<^verbatim>\<open>VolumeManager.delete_volume\<close> is not in \<^verbatim>\<open>src/\<close>.
  Section 4.5, delete, after the dispatch: the driver's \<^verbatim>\<open>VolumeIsBusy\<close> is caught and
  rolls the status back to \<^verbatim>\<open>available\<close> without propagating (the call returns
  \<^verbatim>\<open>True\<close>, as in \<^verbatim>\<open>test_delete_busy_volume\<close>); another driver error is fatal and leaves
  the status \<^verbatim>\<open>error_deleting\<close>; on success the row is destroyed, and a later read does
  not find it.
\<close>

definition manager_delete_volume ::
  "driver \<Rightarrow> string \<Rightarrow> manager_state \<Rightarrow> (exn + bool) \<times> manager_state" where
  "manager_delete_volume drv vid s =
     (case vols s vid of
        None \<Rightarrow> (Inl VolumeNotFound, s)
      | Some v \<Rightarrow>
          (case delete_volume_drv drv v of
             None \<Rightarrow> (Inr True, s\<lparr>vols := (vols s)(vid := None)\<rparr>)
           | Some x \<Rightarrow>
               if x = VolumeIsBusy then (Inr True, set_status vid ''available'' s)
               else (Inl x, set_status vid ''error_deleting'' s)))"

text \<open>Writing one key of the admin metadata: the row is replaced, or added at the end.\<close>

fun metadata_update :: "string \<Rightarrow> string \<Rightarrow> (string \<times> string) list \<Rightarrow> (string \<times> string) list" where
  "metadata_update k v [] = [(k, v)]"
| "metadata_update k v ((k', v') # kvs) =
     (if k' = k then (k, v) # kvs else (k', v') # metadata_update k v kvs)"

text \<open>
  Modelled from the spec: \<^verbatim>\<open>VolumeManager.attach_volume\<close> is not in \<^verbatim>\<open>src/\<close>.
  Section 4.5, attach: the attach status must be \<^verbatim>\<open>detached\<close> (else \<^verbatim>\<open>InvalidVolume\<close>);
  the instance and the host target exclude each other (the spec names no error for both
  given; \<^verbatim>\<open>InvalidInput\<close>, its error of contradictory parameters, is taken); the
  attempted mode is recorded in the admin metadata; mode \<^verbatim>\<open>rw\<close> on a volume whose
  \<^verbatim>\<open>readonly\<close> metadata is \<^verbatim>\<open>True\<close> fails with \<^verbatim>\<open>InvalidVolumeAttachMode\<close>, attach status
  \<^verbatim>\<open>detached\<close> and status \<^verbatim>\<open>error_attaching\<close>; a driver error leaves
  \<^verbatim>\<open>error_attaching\<close>; on success the volume is \<^verbatim>\<open>in-use\<close> and \<^verbatim>\<open>attached\<close>.
\<close>

definition manager_attach_volume ::
  "driver \<Rightarrow> string \<Rightarrow> string option \<Rightarrow> string option \<Rightarrow> string \<Rightarrow> string \<Rightarrow> manager_state
     \<Rightarrow> (exn + unit) \<times> manager_state" where
  "manager_attach_volume drv vid instance_uuid host_name mountpoint mode s =
     (case vols s vid of
        None \<Rightarrow> (Inl VolumeNotFound, s)
      | Some v \<Rightarrow>
          if v_attach_status v \<noteq> ''detached'' then (Inl InvalidVolume, s)
          else if instance_uuid \<noteq> None \<and> host_name \<noteq> None then (Inl InvalidInput, s)
          else
            let v1 = v\<lparr>v_admin_metadata :=
                         metadata_update ''attached_mode'' mode (v_admin_metadata v)\<rparr>
            in
              if map_of (v_admin_metadata v) ''readonly'' = Some ''True'' \<and> mode = ''rw''
              then (Inl InvalidVolumeAttachMode,
                    s\<lparr>vols := (vols s)(vid \<mapsto> v1\<lparr>v_status := ''error_attaching'',
                                                    v_attach_status := ''detached''\<rparr>)\<rparr>)
              else
                (case attach_volume_drv drv v1 of
                   Some x \<Rightarrow>
                     (Inl x, s\<lparr>vols := (vols s)(vid \<mapsto> v1\<lparr>v_status := ''error_attaching''\<rparr>)\<rparr>)
                 | None \<Rightarrow>
                     (Inr (),
                      s\<lparr>vols := (vols s)(vid \<mapsto> v1\<lparr>v_status := ''in-use'',
                                                      v_attach_status := ''attached'',
                                                      v_instance_uuid := instance_uuid,
                                                      v_attached_host := host_name,
                                                      v_mountpoint := Some mountpoint\<rparr>)\<rparr>)))"

text \<open>Python's \<^verbatim>\<open>str.split(sep)\<close> for a one-character separator.\<close>

fun str_split :: "char \<Rightarrow> string \<Rightarrow> string list" where
  "str_split sep [] = [[]]"
| "str_split sep (c # cs) =
     (if c = sep then [] # str_split sep cs
      else (case str_split sep cs of
              [] \<Rightarrow> [[c]]
            | w # ws \<Rightarrow> (c # w) # ws))"

text \<open>
  Modelled from the spec: \<^verbatim>\<open>LVMISCSIDriver.migrate_volume\<close> is not in \<^verbatim>\<open>src/\<close>.
  Section 4.2, migration tie-break policy: \<^verbatim>\<open>(False, None)\<close> with no location info,
  malformed location info, a differing driver class, a differing host, or a volume not in
  \<^verbatim>\<open>available\<close>; \<^verbatim>\<open>moved=True\<close> only on an exact driver and host match with the volume
  \<^verbatim>\<open>available\<close>. The location info is \<^verbatim>\<open>host['capabilities'].get('location_info')\<close>, a
  string of fields separated by colons: the driver class, the host, the volume group and
  what may follow, as in the tests; with fewer than three fields it is malformed. The
  driver class of the LVM driver is \<^verbatim>\<open>LVMVolumeDriver\<close>, \<open>hostname\<close> is the driver's own
  host. The second component is the model update, a list of fields to write.
\<close>

definition migrate_volume ::
  "string \<Rightarrow> volume \<Rightarrow> string option \<Rightarrow> bool \<times> (string \<times> string) list option" where
  "migrate_volume hostname volume location_info =
     (case location_info of
        None \<Rightarrow> (False, None)
      | Some info \<Rightarrow>
          (case str_split CHR '':'' info of
             dest_type # dest_hostname # dest_vg # extras \<Rightarrow>
               if dest_type \<noteq> ''LVMVolumeDriver'' \<or> dest_hostname \<noteq> hostname
               then (False, None)
               else if v_status volume \<noteq> ''available'' then (False, None)
               else (True, None)
           | _ \<Rightarrow> (False, None)))"

section \<open>Scenarios\<close>

text \<open>
  The fixtures of the concrete scenarios below: a request context, rows of the record store,
  a \<^verbatim>\<open>volume_api.create\<close> that registers the volume \<^verbatim>\<open>vol2\<close> in status
  \<^verbatim>\<open>creating\<close>, and a volume manager that sets the status of \<^verbatim>\<open>vol2\<close> during
  one given sleep of the polling loop.
\<close>

definition fake_context :: ctxt where
  "fake_context = \<lparr>user_id = ''fake'', project_id = ''fake'', is_admin = True\<rparr>"

definition fake_user_context :: ctxt where
  "fake_user_context = \<lparr>user_id = ''fake'', project_id = ''fake'', is_admin = False\<rparr>"

definition fake_volume :: "string \<Rightarrow> string \<Rightarrow> int \<Rightarrow> string \<Rightarrow> volume" where
  "fake_volume vid st sz host =
     \<lparr>v_id = vid, v_status = st, v_attach_status = ''detached'', v_size = sz, v_host = host,
      v_availability_zone = ''nova'', v_instance_uuid = None, v_attached_host = None,
      v_mountpoint = None, v_admin_metadata = []\<rparr>"

definition fake_backup :: "string \<Rightarrow> string \<Rightarrow> int option \<Rightarrow> backup" where
  "fake_backup bid st sz =
     \<lparr>b_id = bid, b_user_id = ''fake'', b_project_id = ''fake'', b_display_name = None,
      b_display_description = None, b_volume_id = ''vol0'', b_status = st,
      b_container = None, b_size = sz, b_host = ''host1''\<rparr>"

definition fake_service :: "string \<Rightarrow> bool \<Rightarrow> service" where
  "fake_service host disabled =
     \<lparr>srv_topic = ''cinder-backup'', srv_availability_zone = ''nova'', srv_host = host,
      srv_disabled = disabled\<rparr>"

definition fake_db :: "volume \<Rightarrow> backup \<Rightarrow> service list \<Rightarrow> db" where
  "fake_db v b srvs =
     \<lparr>volumes = [v_id v \<mapsto> v], backups = [b_id b \<mapsto> b], services = srvs, trace = []\<rparr>"

definition fake_volume_create :: "ctxt \<Rightarrow> int \<Rightarrow> string \<Rightarrow> string \<Rightarrow> db \<Rightarrow> (exn + volume) \<times> db" where
  "fake_volume_create c sz name description s =
     (Inr (fake_volume ''vol2'' ''creating'' sz []),
      s\<lparr>volumes := (volumes s)(''vol2'' \<mapsto> fake_volume ''vol2'' ''creating'' sz [])\<rparr>)"

definition fake_env :: "(nat \<Rightarrow> db \<Rightarrow> db) \<Rightarrow> env" where
  "fake_env sl =
     \<lparr>enforce = (\<lambda>c a. True), service_is_up = (\<lambda>srv. True),
      backup_topic = ''cinder-backup'', volume_create = fake_volume_create, sleep = sl\<rparr>"

definition manager_sets :: "nat \<Rightarrow> string \<Rightarrow> nat \<Rightarrow> db \<Rightarrow> db" where
  "manager_sets at st k s =
     (if k = at
      then s\<lparr>volumes := (volumes s)(''vol2'' \<mapsto> fake_volume ''vol2'' st 1 ''host1'')\<rparr>
      else s)"

text \<open>
  The quota table and the quota engine that instantiate the parameters of the quota sets
  controller in the scenarios.
\<close>

text \<open>
  Modelled from the spec: \<^verbatim>\<open>cinder.db.quota_update\<close> is missing. By the errors that
  section 7 names: it raises \<^verbatim>\<open>AdminRequired\<close> for a context that is not an
  administrator's and \<^verbatim>\<open>ProjectQuotaNotFound\<close> for a row that does not exist, and
  otherwise writes the limit into the row.
\<close>

definition db_quota_update :: "ctxt \<Rightarrow> string \<Rightarrow> string \<Rightarrow> int \<Rightarrow> quota_db \<Rightarrow> (exn + unit) \<times> quota_db" where
  "db_quota_update c pid res lim s =
     (if \<not> is_admin c then (Inl AdminRequired, s)
      else
        (case s (pid, res) of
           None \<Rightarrow> (Inl ProjectQuotaNotFound, s)
         | Some old \<Rightarrow> (Inr (), s((pid, res) \<mapsto> lim))))"

text \<open>
  Modelled from the spec: \<^verbatim>\<open>cinder.db.quota_create\<close> is missing; it writes the row of
  the project and the resource, for an administrator's context.
\<close>

definition db_quota_create :: "ctxt \<Rightarrow> string \<Rightarrow> string \<Rightarrow> int \<Rightarrow> quota_db \<Rightarrow> (exn + unit) \<times> quota_db" where
  "db_quota_create c pid res lim s =
     (if \<not> is_admin c then (Inl AdminRequired, s)
      else (Inr (), s((pid, res) \<mapsto> lim)))"

text \<open>
  Modelled from the spec: \<^verbatim>\<open>QUOTAS\<close> is missing; three resources are known, every
  context may update, and a project's limit of a resource is its row, or 10 without one.
\<close>

definition fake_quota_env :: quota_env where
  "fake_quota_env =
     \<lparr>authorize_update = (\<lambda>c. True),
      resources = [''volumes'', ''gigabytes'', ''snapshots''],
      quota_update = db_quota_update,
      quota_create = db_quota_create,
      get_project_quotas = (\<lambda>c pid s.
         map (\<lambda>r. (r, \<lparr>q_limit = (case s (pid, r) of None \<Rightarrow> 10 | Some l \<Rightarrow> l)\<rparr>))
           [''volumes'', ''gigabytes'', ''snapshots''])\<rparr>"

definition fake_driver :: "exn option \<Rightarrow> driver" where
  "fake_driver outcome =
     \<lparr>extend_volume_drv = (\<lambda>v n. outcome), delete_volume_drv = (\<lambda>v. outcome),
      attach_volume_drv = (\<lambda>v. outcome)\<rparr>"

definition fake_manager_state :: "volume \<Rightarrow> int \<Rightarrow> manager_state" where
  "fake_manager_state v lim =
     \<lparr>vols = [v_id v \<mapsto> v],
      gigabytes = \<lparr>hard_limit = lim, in_use = v_size v, reserved = 0\<rparr>\<rparr>"

section \<open>Properties of the backup API\<close>

subsection \<open>The polling loop\<close>

lemma wait_while_creating_leaves:
  "\<lbrakk>\<forall>j<n. still_creating vid (sleeps e k j s); \<not> still_creating vid (sleeps e k n s)\<rbrakk>
   \<Longrightarrow> wait_while_creating e vid k s =
       Some (volume_api_get vid (sleeps e k n s), sleeps e k n s)"
proof (induction n arbitrary: k s)
  case 0
  then show ?case
    by (subst wait_while_creating.simps)
       (auto simp: still_creating_def volume_api_get_def split: option.splits)
next
  case (Suc n)
  from Suc.prems(1) have now: "still_creating vid s"
    by (metis sleeps.simps(1) zero_less_Suc)
  have later: "\<forall>j<n. still_creating vid (sleeps e (Suc k) j (sleep e k s))"
    using Suc.prems(1) by (metis Suc_less_eq sleeps.simps(2))
  have stop: "\<not> still_creating vid (sleeps e (Suc k) n (sleep e k s))"
    using Suc.prems(2) by simp
  have "wait_while_creating e vid k s = wait_while_creating e vid (Suc k) (sleep e k s)"
    using now
    by (subst wait_while_creating.simps)
       (auto simp: still_creating_def volume_api_get_def split: option.splits)
  with Suc.IH[OF later stop] show ?case by simp
qed

lemma wait_while_creating_Some:
  assumes "wait_while_creating e vid k s = Some r"
  shows "\<exists>n. \<not> still_creating vid (sleeps e k n s)"
proof (rule wait_while_creating.raw_induct
         [where P = "\<lambda>e vid k s r. \<exists>n. \<not> still_creating vid (sleeps e k n s)", OF _ assms])
  fix f e vid k s and r :: "(exn + volume) \<times> db"
  assume IH: "\<And>e vid k s r. f e vid k s = Some r
                \<Longrightarrow> \<exists>n. \<not> still_creating vid (sleeps e k n s)"
    and step: "(case volume_api_get vid s of
                  Inl x \<Rightarrow> Some (Inl x, s)
                | Inr volume \<Rightarrow>
                    if v_status volume \<noteq> ''creating'' then Some (Inr volume, s)
                    else f e vid (Suc k) (sleep e k s)) = Some r"
  show "\<exists>n. \<not> still_creating vid (sleeps e k n s)"
  proof (cases "still_creating vid s")
    case False
    then have "\<not> still_creating vid (sleeps e k 0 s)" by simp
    then show ?thesis by blast
  next
    case True
    with step have "f e vid (Suc k) (sleep e k s) = Some r"
      by (auto simp: still_creating_def volume_api_get_def split: option.splits if_splits)
    from IH[OF this] obtain n where "\<not> still_creating vid (sleeps e (Suc k) n (sleep e k s))"
      by blast
    then have "\<not> still_creating vid (sleeps e k (Suc n) s)" by simp
    then show ?thesis by blast
  qed
qed

lemma wait_while_creating_None:
  "\<forall>n. still_creating vid (sleeps e k n s) \<Longrightarrow> wait_while_creating e vid k s = None"
  using wait_while_creating_Some by (metis option.exhaust)

lemma sleeps_idle: "sleeps (fake_env (\<lambda>k s. s)) k n s = s"
  by (induction n arbitrary: k) (simp_all add: fake_env_def)

subsection \<open>The service check and the host\<close>

lemma is_backup_service_enabled_loop_iff:
  "is_backup_service_enabled_loop e volume h srvs \<longleftrightarrow>
     (\<exists>srv \<in> set srvs. srv_availability_zone srv = v_availability_zone volume \<and>
        srv_host srv = h \<and> \<not> srv_disabled srv \<and> service_is_up e srv)"
  by (induction srvs) auto

lemma is_backup_service_enabled_iff:
  "is_backup_service_enabled e volume h s \<longleftrightarrow>
     (\<exists>srv \<in> set (services s). srv_topic srv = backup_topic e \<and>
        srv_availability_zone srv = v_availability_zone volume \<and>
        srv_host srv = h \<and> \<not> srv_disabled srv \<and> service_is_up e srv)"
  by (auto simp: is_backup_service_enabled_def is_backup_service_enabled_loop_iff
        service_get_all_by_topic_def)

lemma str_partition_fst: "fst (str_partition sep str) = takeWhile (\<lambda>c. c \<noteq> sep) str"
proof (cases "sep \<in> set str")
  case True
  then show ?thesis by (simp add: str_partition_def)
next
  case False
  then have "takeWhile (\<lambda>c. c \<noteq> sep) str = str"
    by (induction str) auto
  with False show ?thesis
    unfolding str_partition_def by (simp only: if_False fst_conv)
qed

lemma takeWhile_sep_shape:
  "str = takeWhile (\<lambda>c. c \<noteq> sep) str \<or>
   (\<exists>rest. str = takeWhile (\<lambda>c. c \<noteq> sep) str @ sep # rest)"
proof (induction str)
  case Nil
  then show ?case by simp
next
  case (Cons c cs)
  then show ?case by (cases "c = sep") auto
qed

subsection \<open>The paths of create and restore\<close>

lemma create_ok:
  assumes "check_policy e context ''create''"
    and "volumes s volume_id = Some volume"
    and "v_status volume = ''available''"
    and "is_backup_service_enabled e volume (takeWhile (\<lambda>c. c \<noteq> CHR ''@'') (v_host volume)) s"
  shows "create e context name description volume_id container new_id s =
    (Inr \<lparr>b_id = new_id, b_user_id = user_id context,
          b_project_id = project_id context, b_display_name = name,
          b_display_description = description, b_volume_id = volume_id,
          b_status = ''creating'', b_container = container,
          b_size = Some (v_size volume),
          b_host = takeWhile (\<lambda>c. c \<noteq> CHR ''@'') (v_host volume)\<rparr>,
     \<lparr>volumes = (volumes s)(volume_id \<mapsto> volume\<lparr>v_status := ''backing-up''\<rparr>),
      backups = (backups s)(new_id \<mapsto>
         \<lparr>b_id = new_id, b_user_id = user_id context,
          b_project_id = project_id context, b_display_name = name,
          b_display_description = description, b_volume_id = volume_id,
          b_status = ''creating'', b_container = container,
          b_size = Some (v_size volume),
          b_host = takeWhile (\<lambda>c. c \<noteq> CHR ''@'') (v_host volume)\<rparr>),
      services = services s,
      trace = trace s @ [VolumeUpdate volume_id ''backing-up'', BackupCreate new_id,
                Cast (Create_backup (takeWhile (\<lambda>c. c \<noteq> CHR ''@'') (v_host volume))
                        new_id volume_id)]\<rparr>)"
  using assms
  by (simp add: create_def volume_api_get_def str_partition_fst volume_update_def
        backup_create_def cast_def Let_def)

lemma create_Inr_D:
  assumes "create e context name description volume_id container new_id s = (Inr b, s')"
    and "volumes s volume_id = Some volume"
  shows "check_policy e context ''create'' \<and> v_status volume = ''available'' \<and>
         is_backup_service_enabled e volume (takeWhile (\<lambda>c. c \<noteq> CHR ''@'') (v_host volume)) s"
proof -
  have p: "check_policy e context ''create''"
    using assms(1) by (cases "check_policy e context ''create''") (simp_all add: create_def)
  have a: "v_status volume = ''available''"
    using assms p by (cases "v_status volume = ''available''")
      (simp_all add: create_def volume_api_get_def)
  have "is_backup_service_enabled e volume (takeWhile (\<lambda>c. c \<noteq> CHR ''@'') (v_host volume)) s"
    using assms p a
    by (cases "is_backup_service_enabled e volume (takeWhile (\<lambda>c. c \<noteq> CHR ''@'') (v_host volume)) s")
      (simp_all add: create_def volume_api_get_def str_partition_fst)
  with p a show ?thesis by simp
qed

lemma restore_checked_ok:
  "\<lbrakk>v_status volume = ''available''; sz \<le> v_size volume;
    backups s bid = Some b'; volumes s vid = Some v'\<rbrakk>
   \<Longrightarrow> restore_checked backup bid volume vid sz s =
       (Inr (bid, vid),
        \<lparr>volumes = (volumes s)(vid \<mapsto> v'\<lparr>v_status := ''restoring-backup''\<rparr>),
         backups = (backups s)(bid \<mapsto> b'\<lparr>b_status := ''restoring''\<rparr>),
         services = services s,
         trace = trace s @ [BackupUpdate bid ''restoring'',
                            VolumeUpdate vid ''restoring-backup'',
                            Cast (Restore_backup (b_host backup) (b_id backup) vid)]\<rparr>)"
  by (simp add: restore_checked_def backup_update_def volume_update_def cast_def)

lemma restore_checked_bad:
  "v_status volume \<noteq> ''available'' \<or> v_size volume < sz
   \<Longrightarrow> restore_checked backup bid volume vid sz s = (Inl InvalidVolume, s)"
  by (auto simp: restore_checked_def)

lemma restore_prefix:
  "\<lbrakk>check_policy e context ''restore''; check_policy e context ''get'';
    backups s bid = Some backup\<rbrakk>
   \<Longrightarrow> restore e context bid dest s =
     (if b_status backup \<noteq> ''available'' then Some (Inl InvalidBackup, s)
      else case b_size backup of
            None \<Rightarrow> Some (Inl InvalidBackup, s)
          | Some sz \<Rightarrow>
              (case dest of
                 None \<Rightarrow>
                   (case volume_create e context sz (''restore_backup_'' @ bid)
                           ''auto-created_from_restore_from_backup'' s of
                      (Inl x, s1) \<Rightarrow> Some (Inl x, s1)
                    | (Inr created, s1) \<Rightarrow>
                        (case wait_while_creating e (v_id created) 0 s1 of
                           None \<Rightarrow> None
                         | Some (Inl x, s2) \<Rightarrow> Some (Inl x, s2)
                         | Some (Inr volume, s2) \<Rightarrow>
                             Some (restore_checked backup bid volume (v_id created) sz s2)))
               | Some vid \<Rightarrow>
                   (case volume_api_get vid s of
                      Inl x \<Rightarrow> Some (Inl x, s)
                    | Inr volume \<Rightarrow>
                        if v_size volume < sz then Some (Inl InvalidVolume, s)
                        else Some (restore_checked backup bid volume vid sz s))))"
  by (simp add: restore_def get_def backup_get_def)

lemma restore_destination:
  assumes "check_policy e context ''restore''" "check_policy e context ''get''"
    and "backups s backup_id = Some backup" "b_status backup = ''available''"
    and "b_size backup = Some sz"
    and "volumes s vid = Some volume"
  shows "restore e context backup_id (Some vid) s =
           Some (if v_size volume < sz then (Inl InvalidVolume, s)
                 else restore_checked backup backup_id volume vid sz s)"
  using assms by (simp add: restore_prefix volume_api_get_def)

lemma restore_no_destination:
  assumes "check_policy e context ''restore''" "check_policy e context ''get''"
    and "backups s backup_id = Some backup" "b_status backup = ''available''"
    and "b_size backup = Some sz"
    and "volume_create e context sz (''restore_backup_'' @ backup_id)
           ''auto-created_from_restore_from_backup'' s = (Inr created, s')"
  shows "restore e context backup_id None s =
           (case wait_while_creating e (v_id created) 0 s' of
              None \<Rightarrow> None
            | Some (Inl x, s2) \<Rightarrow> Some (Inl x, s2)
            | Some (Inr volume, s2) \<Rightarrow>
                Some (restore_checked backup backup_id volume (v_id created) sz s2))"
  using assms by (simp add: restore_prefix)

lemma restore_no_destination_leaves:
  assumes "check_policy e context ''restore''" "check_policy e context ''get''"
    and "backups s backup_id = Some backup" "b_status backup = ''available''"
    and "b_size backup = Some sz"
    and "volume_create e context sz (''restore_backup_'' @ backup_id)
           ''auto-created_from_restore_from_backup'' s = (Inr created, s')"
    and "\<forall>j<n. still_creating (v_id created) (sleeps e 0 j s')"
    and "\<not> still_creating (v_id created) (sleeps e 0 n s')"
  shows "restore e context backup_id None s =
           Some (case volume_api_get (v_id created) (sleeps e 0 n s') of
                   Inl x \<Rightarrow> (Inl x, sleeps e 0 n s')
                 | Inr volume \<Rightarrow>
                     restore_checked backup backup_id volume (v_id created) sz (sleeps e 0 n s'))"
  by (simp add: restore_no_destination[OF assms(1-6)]
        wait_while_creating_leaves[OF assms(7,8)] split: sum.split)

lemma restore_no_destination_None:
  assumes "check_policy e context ''restore''" "check_policy e context ''get''"
    and "backups s backup_id = Some backup" "b_status backup = ''available''"
    and "b_size backup = Some sz"
    and "volume_create e context sz (''restore_backup_'' @ backup_id)
           ''auto-created_from_restore_from_backup'' s = (Inr created, s')"
  shows "restore e context backup_id None s = None \<longleftrightarrow>
           (\<forall>n. still_creating (v_id created) (sleeps e 0 n s'))"
proof
  assume "\<forall>n. still_creating (v_id created) (sleeps e 0 n s')"
  then have "wait_while_creating e (v_id created) 0 s' = None"
    by (rule wait_while_creating_None)
  then show "restore e context backup_id None s = None"
    by (simp add: restore_no_destination[OF assms])
next
  assume none: "restore e context backup_id None s = None"
  show "\<forall>n. still_creating (v_id created) (sleeps e 0 n s')"
  proof (rule ccontr)
    assume "\<not> (\<forall>n. still_creating (v_id created) (sleeps e 0 n s'))"
    then have ex: "\<exists>n. \<not> still_creating (v_id created) (sleeps e 0 n s')" by simp
    define m where "m = (LEAST n. \<not> still_creating (v_id created) (sleeps e 0 n s'))"
    have stop: "\<not> still_creating (v_id created) (sleeps e 0 m s')"
      unfolding m_def using ex by (rule LeastI_ex)
    have before: "\<forall>j<m. still_creating (v_id created) (sleeps e 0 j s')"
      unfolding m_def using not_less_Least by blast
    from restore_no_destination_leaves[OF assms before stop] none
    show False by simp
  qed
qed

subsection \<open>Claims about the backup API\<close>

text \<open>
  Claim C1, as the code has it. A restore request with no destination volume creates one
  (\<^verbatim>\<open>volume_api.create\<close>) and then polls its status. The loop has no iteration or time
  limit: it ends at the first poll that does not find the volume in status
  \<^verbatim>\<open>creating\<close> (after \<open>n\<close> sleeps, when the \<open>n\<close> polls before all found it
  \<^verbatim>\<open>creating\<close>), the request going on with the volume read at that poll; and the request
  never returns exactly when every poll finds the volume in status \<^verbatim>\<open>creating\<close>.
\<close>

theorem restore_polls_until_not_creating:
  assumes "check_policy e context ''restore''" "check_policy e context ''get''"
    and "backups s backup_id = Some backup" "b_status backup = ''available''"
    and "b_size backup = Some sz"
    and "volume_create e context sz (''restore_backup_'' @ backup_id)
           ''auto-created_from_restore_from_backup'' s = (Inr created, s')"
  shows "((\<forall>j<n. still_creating (v_id created) (sleeps e 0 j s')) \<and>
          \<not> still_creating (v_id created) (sleeps e 0 n s') \<longrightarrow>
            restore e context backup_id None s =
              Some (case volume_api_get (v_id created) (sleeps e 0 n s') of
                      Inl x \<Rightarrow> (Inl x, sleeps e 0 n s')
                    | Inr volume \<Rightarrow>
                        restore_checked backup backup_id volume (v_id created) sz
                          (sleeps e 0 n s'))) \<and>
         (restore e context backup_id None s = None \<longleftrightarrow>
            (\<forall>m. still_creating (v_id created) (sleeps e 0 m s')))"
  using restore_no_destination_leaves[OF assms] restore_no_destination_None[OF assms]
  by blast

text \<open>
  The manager makes \<^verbatim>\<open>vol2\<close> available during the second sleep: the loop ends at the
  third poll and the restore goes on.
\<close>

theorem restore_polls_until_not_creating_witness:
  "restore (fake_env (manager_sets 1 ''available'')) fake_context ''bak1'' None
     (fake_db (fake_volume ''vol1'' ''available'' 1 ''host1'')
        (fake_backup ''bak1'' ''available'' (Some 1)) []) =
   Some (Inr (''bak1'', ''vol2''),
         \<lparr>volumes = [''vol1'' \<mapsto> fake_volume ''vol1'' ''available'' 1 ''host1'',
                     ''vol2'' \<mapsto> fake_volume ''vol2'' ''restoring-backup'' 1 ''host1''],
          backups = [''bak1'' \<mapsto> fake_backup ''bak1'' ''restoring'' (Some 1)],
          services = [],
          trace = [BackupUpdate ''bak1'' ''restoring'',
                   VolumeUpdate ''vol2'' ''restoring-backup'',
                   Cast (Restore_backup ''host1'' ''bak1'' ''vol2'')]\<rparr>)"
proof -
  let ?e = "fake_env (manager_sets 1 ''available'')"
  let ?b = "fake_backup ''bak1'' ''available'' (Some 1)"
  let ?v = "fake_volume ''vol1'' ''available'' 1 ''host1''"
  let ?s = "fake_db ?v ?b []"
  let ?s1 = "snd (fake_volume_create fake_context 1 ''restore_backup_bak1''
                ''auto-created_from_restore_from_backup'' ?s)"
  let ?c = "fake_volume ''vol2'' ''creating'' 1 []"
  have p: "check_policy ?e fake_context ''restore''" "check_policy ?e fake_context ''get''"
    by (simp_all add: check_policy_def fake_env_def)
  have b: "backups ?s ''bak1'' = Some ?b" "b_status ?b = ''available''" "b_size ?b = Some 1"
    by (simp_all add: fake_db_def fake_backup_def)
  have c: "volume_create ?e fake_context 1 (''restore_backup_'' @ ''bak1'')
             ''auto-created_from_restore_from_backup'' ?s = (Inr ?c, ?s1)"
    by (simp add: fake_env_def fake_volume_create_def)
  have two: "(2::nat) = Suc (Suc 0)" by simp
  have w: "\<forall>j<2. still_creating (v_id ?c) (sleeps ?e 0 j ?s1)"
    unfolding two
    by (simp add: less_Suc_eq still_creating_def fake_env_def fake_volume_create_def
          fake_volume_def manager_sets_def fake_db_def)
  have sn: "sleeps ?e 0 2 ?s1 =
      \<lparr>volumes = [''vol1'' \<mapsto> ?v, ''vol2'' \<mapsto> fake_volume ''vol2'' ''available'' 1 ''host1''],
       backups = [''bak1'' \<mapsto> ?b], services = [], trace = []\<rparr>"
    unfolding two
    by (simp add: fake_env_def fake_volume_create_def fake_volume_def manager_sets_def
          fake_db_def fake_backup_def)
  have stop: "\<not> still_creating (v_id ?c) (sleeps ?e 0 2 ?s1)"
    unfolding sn by (simp add: still_creating_def fake_volume_def)
  from restore_polls_until_not_creating[OF p b c, of 2] w stop
  have "restore ?e fake_context ''bak1'' None ?s =
          Some (case volume_api_get (v_id ?c) (sleeps ?e 0 2 ?s1) of
                  Inl x \<Rightarrow> (Inl x, sleeps ?e 0 2 ?s1)
                | Inr volume \<Rightarrow>
                    restore_checked ?b ''bak1'' volume (v_id ?c) 1 (sleeps ?e 0 2 ?s1))"
    by blast
  then show ?thesis
    unfolding sn
    by (simp add: volume_api_get_def fake_volume_def fake_backup_def restore_checked_def
          backup_update_def volume_update_def cast_def)
qed

text \<open>
  Claim C1 as stated fails: when nothing ever moves the created volume out of
  \<^verbatim>\<open>creating\<close>, the loop has no bound and the request never returns.
\<close>

theorem restore_wait_unbounded_counterexample:
  "restore (fake_env (\<lambda>k s. s)) fake_context ''bak1'' None
     (fake_db (fake_volume ''vol1'' ''available'' 1 ''host1'')
        (fake_backup ''bak1'' ''available'' (Some 1)) []) = None"
proof -
  let ?e = "fake_env (\<lambda>k s. s)"
  let ?b = "fake_backup ''bak1'' ''available'' (Some 1)"
  let ?s = "fake_db (fake_volume ''vol1'' ''available'' 1 ''host1'') ?b []"
  let ?s1 = "snd (fake_volume_create fake_context 1 ''restore_backup_bak1''
                ''auto-created_from_restore_from_backup'' ?s)"
  let ?v = "fake_volume ''vol2'' ''creating'' 1 []"
  have p: "check_policy ?e fake_context ''restore''" "check_policy ?e fake_context ''get''"
    by (simp_all add: check_policy_def fake_env_def)
  have b: "backups ?s ''bak1'' = Some ?b" "b_status ?b = ''available''" "b_size ?b = Some 1"
    by (simp_all add: fake_db_def fake_backup_def)
  have c: "volume_create ?e fake_context 1 (''restore_backup_'' @ ''bak1'')
             ''auto-created_from_restore_from_backup'' ?s = (Inr ?v, ?s1)"
    by (simp add: fake_env_def fake_volume_create_def)
  have "\<forall>n. still_creating (v_id ?v) (sleeps ?e 0 n ?s1)"
    by (simp add: sleeps_idle still_creating_def fake_volume_create_def fake_volume_def)
  then show ?thesis
    by (simp add: restore_no_destination_None[OF p b c])
qed

text \<open>
  Claim C5, as the code has it. For an authorised restore request on an existing backup:
  a backup whose status is not \<^verbatim>\<open>available\<close> or whose size is null raises
  \<^verbatim>\<open>InvalidBackup\<close> and the store is unchanged; with a good backup, a destination volume
  that is smaller than the backup or not \<^verbatim>\<open>available\<close> raises \<^verbatim>\<open>InvalidVolume\<close> and
  the store is unchanged; a destination volume that is large enough and \<^verbatim>\<open>available\<close>
  has the backup set to \<^verbatim>\<open>restoring\<close>, then the volume set to
  \<^verbatim>\<open>restoring-backup\<close>, then the \<^verbatim>\<open>restore_backup\<close> cast sent, in this order; and with
  no destination volume the same three effects follow when the volume created for the
  restore leaves \<^verbatim>\<open>creating\<close> as \<^verbatim>\<open>available\<close> and large enough.
\<close>

theorem restore_checks_then_marks:
  assumes "check_policy e context ''restore''" "check_policy e context ''get''"
    and "backups s backup_id = Some backup"
  shows
    "(b_status backup \<noteq> ''available'' \<or> b_size backup = None \<longrightarrow>
        restore e context backup_id dest s = Some (Inl InvalidBackup, s)) \<and>
     (b_status backup = ''available'' \<and> b_size backup = Some sz \<and>
      dest = Some vid \<and> volumes s vid = Some volume \<and>
      (v_size volume < sz \<or> v_status volume \<noteq> ''available'') \<longrightarrow>
        restore e context backup_id dest s = Some (Inl InvalidVolume, s)) \<and>
     (b_status backup = ''available'' \<and> b_size backup = Some sz \<and>
      dest = Some vid \<and> volumes s vid = Some volume \<and>
      sz \<le> v_size volume \<and> v_status volume = ''available'' \<longrightarrow>
        restore e context backup_id dest s =
          Some (Inr (backup_id, vid),
                \<lparr>volumes = (volumes s)(vid \<mapsto> volume\<lparr>v_status := ''restoring-backup''\<rparr>),
                 backups = (backups s)(backup_id \<mapsto> backup\<lparr>b_status := ''restoring''\<rparr>),
                 services = services s,
                 trace = trace s @ [BackupUpdate backup_id ''restoring'',
                                    VolumeUpdate vid ''restoring-backup'',
                                    Cast (Restore_backup (b_host backup) (b_id backup) vid)]\<rparr>)) \<and>
     (b_status backup = ''available'' \<and> b_size backup = Some sz \<and> dest = None \<and>
      volume_create e context sz (''restore_backup_'' @ backup_id)
        ''auto-created_from_restore_from_backup'' s = (Inr created, s') \<and>
      (\<forall>j<n. still_creating (v_id created) (sleeps e 0 j s')) \<and>
      volumes (sleeps e 0 n s') (v_id created) = Some volume \<and>
      backups (sleeps e 0 n s') backup_id = Some backup' \<and>
      sz \<le> v_size volume \<and> v_status volume = ''available'' \<longrightarrow>
        restore e context backup_id dest s =
          Some (Inr (backup_id, v_id created),
                \<lparr>volumes = (volumes (sleeps e 0 n s'))
                             (v_id created \<mapsto> volume\<lparr>v_status := ''restoring-backup''\<rparr>),
                 backups = (backups (sleeps e 0 n s'))
                             (backup_id \<mapsto> backup'\<lparr>b_status := ''restoring''\<rparr>),
                 services = services (sleeps e 0 n s'),
                 trace = trace (sleeps e 0 n s') @
                           [BackupUpdate backup_id ''restoring'',
                            VolumeUpdate (v_id created) ''restoring-backup'',
                            Cast (Restore_backup (b_host backup) (b_id backup) (v_id created))]\<rparr>))"
proof (intro conjI impI)
  assume "b_status backup \<noteq> ''available'' \<or> b_size backup = None"
  then show "restore e context backup_id dest s = Some (Inl InvalidBackup, s)"
    using assms by (auto simp: restore_prefix)
next
  assume a: "b_status backup = ''available'' \<and> b_size backup = Some sz \<and>
      dest = Some vid \<and> volumes s vid = Some volume \<and>
      (v_size volume < sz \<or> v_status volume \<noteq> ''available'')"
  then have "restore e context backup_id (Some vid) s =
           Some (if v_size volume < sz then (Inl InvalidVolume, s)
                 else restore_checked backup backup_id volume vid sz s)"
    using restore_destination[OF assms] by blast
  with a show "restore e context backup_id dest s = Some (Inl InvalidVolume, s)"
    by (auto simp: restore_checked_bad)
next
  assume a: "b_status backup = ''available'' \<and> b_size backup = Some sz \<and>
      dest = Some vid \<and> volumes s vid = Some volume \<and>
      sz \<le> v_size volume \<and> v_status volume = ''available''"
  then have "restore e context backup_id (Some vid) s =
           Some (if v_size volume < sz then (Inl InvalidVolume, s)
                 else restore_checked backup backup_id volume vid sz s)"
    using restore_destination[OF assms] by blast
  with a assms(3)
  show "restore e context backup_id dest s =
          Some (Inr (backup_id, vid),
                \<lparr>volumes = (volumes s)(vid \<mapsto> volume\<lparr>v_status := ''restoring-backup''\<rparr>),
                 backups = (backups s)(backup_id \<mapsto> backup\<lparr>b_status := ''restoring''\<rparr>),
                 services = services s,
                 trace = trace s @ [BackupUpdate backup_id ''restoring'',
                                    VolumeUpdate vid ''restoring-backup'',
                                    Cast (Restore_backup (b_host backup) (b_id backup) vid)]\<rparr>)"
    by (simp add: restore_checked_ok)
next
  let ?sn = "sleeps e 0 n s'"
  assume a: "b_status backup = ''available'' \<and> b_size backup = Some sz \<and> dest = None \<and>
      volume_create e context sz (''restore_backup_'' @ backup_id)
        ''auto-created_from_restore_from_backup'' s = (Inr created, s') \<and>
      (\<forall>j<n. still_creating (v_id created) (sleeps e 0 j s')) \<and>
      volumes ?sn (v_id created) = Some volume \<and>
      backups ?sn backup_id = Some backup' \<and>
      sz \<le> v_size volume \<and> v_status volume = ''available''"
  then have stop: "\<not> still_creating (v_id created) ?sn"
    by (simp add: still_creating_def)
  from a have g: "volume_api_get (v_id created) ?sn = Inr volume"
    by (simp add: volume_api_get_def)
  from a have "restore e context backup_id None s =
           Some (case volume_api_get (v_id created) ?sn of
                   Inl x \<Rightarrow> (Inl x, ?sn)
                 | Inr volume \<Rightarrow>
                     restore_checked backup backup_id volume (v_id created) sz ?sn)"
    using restore_no_destination_leaves[OF assms _ _ _ _ stop] by blast
  with a g
  show "restore e context backup_id dest s =
          Some (Inr (backup_id, v_id created),
                \<lparr>volumes = (volumes ?sn)
                             (v_id created \<mapsto> volume\<lparr>v_status := ''restoring-backup''\<rparr>),
                 backups = (backups ?sn)
                             (backup_id \<mapsto> backup'\<lparr>b_status := ''restoring''\<rparr>),
                 services = services ?sn,
                 trace = trace ?sn @
                           [BackupUpdate backup_id ''restoring'',
                            VolumeUpdate (v_id created) ''restoring-backup'',
                            Cast (Restore_backup (b_host backup) (b_id backup) (v_id created))]\<rparr>)"
    by (simp add: restore_checked_ok)
qed

theorem restore_checks_then_marks_witness:
  "restore (fake_env (\<lambda>k s. s)) fake_context ''bak1'' (Some ''vol1'')
     (fake_db (fake_volume ''vol1'' ''available'' 2 ''host1'')
        (fake_backup ''bak1'' ''error'' (Some 1)) []) =
   Some (Inl InvalidBackup,
         fake_db (fake_volume ''vol1'' ''available'' 2 ''host1'')
           (fake_backup ''bak1'' ''error'' (Some 1)) []) \<and>
   restore (fake_env (\<lambda>k s. s)) fake_context ''bak1'' (Some ''vol1'')
     (fake_db (fake_volume ''vol1'' ''in-use'' 2 ''host1'')
        (fake_backup ''bak1'' ''available'' (Some 1)) []) =
   Some (Inl InvalidVolume,
         fake_db (fake_volume ''vol1'' ''in-use'' 2 ''host1'')
           (fake_backup ''bak1'' ''available'' (Some 1)) []) \<and>
   restore (fake_env (\<lambda>k s. s)) fake_context ''bak1'' (Some ''vol1'')
     (fake_db (fake_volume ''vol1'' ''available'' 2 ''host1'')
        (fake_backup ''bak1'' ''available'' (Some 1)) []) =
   Some (Inr (''bak1'', ''vol1''),
         \<lparr>volumes = [''vol1'' \<mapsto> fake_volume ''vol1'' ''restoring-backup'' 2 ''host1''],
          backups = [''bak1'' \<mapsto> fake_backup ''bak1'' ''restoring'' (Some 1)],
          services = [],
          trace = [BackupUpdate ''bak1'' ''restoring'',
                   VolumeUpdate ''vol1'' ''restoring-backup'',
                   Cast (Restore_backup ''host1'' ''bak1'' ''vol1'')]\<rparr>) \<and>
   restore (fake_env (manager_sets 0 ''available'')) fake_context ''bak1'' None
     (fake_db (fake_volume ''vol1'' ''available'' 2 ''host1'')
        (fake_backup ''bak1'' ''available'' (Some 1)) []) =
   Some (Inr (''bak1'', ''vol2''),
         \<lparr>volumes = [''vol1'' \<mapsto> fake_volume ''vol1'' ''available'' 2 ''host1'',
                     ''vol2'' \<mapsto> fake_volume ''vol2'' ''restoring-backup'' 1 ''host1''],
          backups = [''bak1'' \<mapsto> fake_backup ''bak1'' ''restoring'' (Some 1)],
          services = [],
          trace = [BackupUpdate ''bak1'' ''restoring'',
                   VolumeUpdate ''vol2'' ''restoring-backup'',
                   Cast (Restore_backup ''host1'' ''bak1'' ''vol2'')]\<rparr>)"
proof -
  let ?idle = "fake_env (\<lambda>k s. s)"
  let ?e = "fake_env (manager_sets 0 ''available'')"
  let ?v = "fake_volume ''vol1'' ''available'' 2 ''host1''"
  let ?vu = "fake_volume ''vol1'' ''in-use'' 2 ''host1''"
  let ?b = "fake_backup ''bak1'' ''available'' (Some 1)"
  let ?be = "fake_backup ''bak1'' ''error'' (Some 1)"
  let ?c = "fake_volume ''vol2'' ''creating'' 1 []"
  let ?s1 = "snd (fake_volume_create fake_context 1 ''restore_backup_bak1''
                ''auto-created_from_restore_from_backup'' (fake_db ?v ?b []))"
  have p: "check_policy ?idle fake_context ''restore''" "check_policy ?idle fake_context ''get''"
    "check_policy ?e fake_context ''restore''" "check_policy ?e fake_context ''get''"
    by (simp_all add: check_policy_def fake_env_def)
  have b: "backups (fake_db ?v ?be []) ''bak1'' = Some ?be"
    "backups (fake_db ?vu ?b []) ''bak1'' = Some ?b"
    "backups (fake_db ?v ?b []) ''bak1'' = Some ?b"
    by (simp_all add: fake_db_def fake_backup_def)
  have one: "(1::nat) = Suc 0" by simp
  have sn: "sleeps ?e 0 1 ?s1 =
      \<lparr>volumes = [''vol1'' \<mapsto> ?v, ''vol2'' \<mapsto> fake_volume ''vol2'' ''available'' 1 ''host1''],
       backups = [''bak1'' \<mapsto> ?b], services = [], trace = []\<rparr>"
    unfolding one
    by (simp add: fake_env_def fake_volume_create_def fake_volume_def manager_sets_def
          fake_db_def fake_backup_def)
  have c1: "restore ?idle fake_context ''bak1'' (Some ''vol1'') (fake_db ?v ?be []) =
              Some (Inl InvalidBackup, fake_db ?v ?be [])"
    using restore_checks_then_marks[OF p(1,2) b(1), where dest = "Some ''vol1''"]
    by (simp add: fake_backup_def)
  have c2: "restore ?idle fake_context ''bak1'' (Some ''vol1'') (fake_db ?vu ?b []) =
              Some (Inl InvalidVolume, fake_db ?vu ?b [])"
    using restore_checks_then_marks[OF p(1,2) b(2), where dest = "Some ''vol1''"
        and sz = 1 and vid = "''vol1''" and volume = ?vu]
    by (simp add: fake_backup_def fake_db_def fake_volume_def)
  have c3: "restore ?idle fake_context ''bak1'' (Some ''vol1'') (fake_db ?v ?b []) =
   Some (Inr (''bak1'', ''vol1''),
         \<lparr>volumes = [''vol1'' \<mapsto> fake_volume ''vol1'' ''restoring-backup'' 2 ''host1''],
          backups = [''bak1'' \<mapsto> fake_backup ''bak1'' ''restoring'' (Some 1)],
          services = [],
          trace = [BackupUpdate ''bak1'' ''restoring'',
                   VolumeUpdate ''vol1'' ''restoring-backup'',
                   Cast (Restore_backup ''host1'' ''bak1'' ''vol1'')]\<rparr>)"
    using restore_checks_then_marks[OF p(1,2) b(3), where dest = "Some ''vol1''"
        and sz = 1 and vid = "''vol1''" and volume = ?v]
    by (simp add: fake_backup_def fake_db_def fake_volume_def)
  have c4: "restore ?e fake_context ''bak1'' None (fake_db ?v ?b []) =
   Some (Inr (''bak1'', ''vol2''),
         \<lparr>volumes = [''vol1'' \<mapsto> fake_volume ''vol1'' ''available'' 2 ''host1'',
                     ''vol2'' \<mapsto> fake_volume ''vol2'' ''restoring-backup'' 1 ''host1''],
          backups = [''bak1'' \<mapsto> fake_backup ''bak1'' ''restoring'' (Some 1)],
          services = [],
          trace = [BackupUpdate ''bak1'' ''restoring'',
                   VolumeUpdate ''vol2'' ''restoring-backup'',
                   Cast (Restore_backup ''host1'' ''bak1'' ''vol2'')]\<rparr>)"
    using restore_checks_then_marks[OF p(3,4) b(3), where dest = None and sz = 1
        and volume = "fake_volume ''vol2'' ''available'' 1 ''host1''" and created = ?c
        and s' = ?s1 and n = 1 and backup' = ?b]
    unfolding sn
    by (simp add: fake_backup_def fake_volume_def fake_env_def fake_volume_create_def
          still_creating_def fake_db_def)
  from c1 c2 c3 c4 show ?thesis by blast
qed

text \<open>
  Claim C5 as stated fails in its last case: with a good backup and no destination volume,
  the created volume may leave \<^verbatim>\<open>creating\<close> in status \<^verbatim>\<open>error\<close>; the request
  then raises \<^verbatim>\<open>InvalidVolume\<close>, the backup stays \<^verbatim>\<open>available\<close>, nothing is cast, and
  the store has changed (it holds the created volume).
\<close>

theorem restore_created_volume_error_counterexample:
  "\<exists>s'. restore (fake_env (manager_sets 0 ''error'')) fake_context ''bak1'' None
           (fake_db (fake_volume ''vol1'' ''available'' 2 ''host1'')
              (fake_backup ''bak1'' ''available'' (Some 1)) []) = Some (Inl InvalidVolume, s') \<and>
         backups s' ''bak1'' = Some (fake_backup ''bak1'' ''available'' (Some 1)) \<and>
         volumes s' ''vol2'' = Some (fake_volume ''vol2'' ''error'' 1 ''host1'') \<and>
         trace s' = []"
proof -
  let ?e = "fake_env (manager_sets 0 ''error'')"
  let ?v = "fake_volume ''vol1'' ''available'' 2 ''host1''"
  let ?b = "fake_backup ''bak1'' ''available'' (Some 1)"
  let ?c = "fake_volume ''vol2'' ''creating'' 1 []"
  let ?s1 = "snd (fake_volume_create fake_context 1 ''restore_backup_bak1''
                ''auto-created_from_restore_from_backup'' (fake_db ?v ?b []))"
  have p: "check_policy ?e fake_context ''restore''" "check_policy ?e fake_context ''get''"
    by (simp_all add: check_policy_def fake_env_def)
  have b: "backups (fake_db ?v ?b []) ''bak1'' = Some ?b" "b_status ?b = ''available''"
    "b_size ?b = Some 1"
    by (simp_all add: fake_db_def fake_backup_def)
  have c: "volume_create ?e fake_context 1 (''restore_backup_'' @ ''bak1'')
             ''auto-created_from_restore_from_backup'' (fake_db ?v ?b []) = (Inr ?c, ?s1)"
    by (simp add: fake_env_def fake_volume_create_def)
  have one: "(1::nat) = Suc 0" by simp
  have sn: "sleeps ?e 0 1 ?s1 =
      \<lparr>volumes = [''vol1'' \<mapsto> ?v, ''vol2'' \<mapsto> fake_volume ''vol2'' ''error'' 1 ''host1''],
       backups = [''bak1'' \<mapsto> ?b], services = [], trace = []\<rparr>"
    unfolding one
    by (simp add: fake_env_def fake_volume_create_def fake_volume_def manager_sets_def
          fake_db_def fake_backup_def)
  have w: "\<forall>j<1. still_creating (v_id ?c) (sleeps ?e 0 j ?s1)"
    by (simp add: still_creating_def fake_volume_create_def fake_volume_def)
  have stop: "\<not> still_creating (v_id ?c) (sleeps ?e 0 1 ?s1)"
    unfolding sn by (simp add: still_creating_def fake_volume_def)
  show ?thesis
    unfolding restore_no_destination_leaves[OF p b c w stop] sn
    by (simp add: volume_api_get_def fake_volume_def restore_checked_def)
qed

text \<open>
  Claim C6. For an authorised backup create request on an existing volume: a volume whose
  status is not \<^verbatim>\<open>available\<close> raises \<^verbatim>\<open>InvalidVolume\<close>; an \<^verbatim>\<open>available\<close> volume
  for which no service row of the backup topic matches its availability zone and its host
  (the part before \<^verbatim>\<open>@\<close>), not disabled and up, raises \<^verbatim>\<open>ServiceNotFound\<close>; in both
  cases the store, the volume's status with it, is unchanged. When both checks pass the
  volume is set to \<^verbatim>\<open>backing-up\<close> first, then the backup row is created, then the
  \<^verbatim>\<open>create_backup\<close> cast is sent.
\<close>

theorem create_checks_before_marking:
  assumes "check_policy e context ''create''"
    and "volumes s volume_id = Some volume"
  shows
    "(v_status volume \<noteq> ''available'' \<longrightarrow>
        create e context name description volume_id container new_id s = (Inl InvalidVolume, s)) \<and>
     (v_status volume = ''available'' \<and>
        \<not> (\<exists>srv \<in> set (services s). srv_topic srv = backup_topic e \<and>
               srv_availability_zone srv = v_availability_zone volume \<and>
               srv_host srv = fst (str_partition CHR ''@'' (v_host volume)) \<and>
               \<not> srv_disabled srv \<and> service_is_up e srv) \<longrightarrow>
        create e context name description volume_id container new_id s = (Inl ServiceNotFound, s)) \<and>
     (v_status volume = ''available'' \<and>
        (\<exists>srv \<in> set (services s). srv_topic srv = backup_topic e \<and>
               srv_availability_zone srv = v_availability_zone volume \<and>
               srv_host srv = fst (str_partition CHR ''@'' (v_host volume)) \<and>
               \<not> srv_disabled srv \<and> service_is_up e srv) \<longrightarrow>
        (\<exists>b s'. create e context name description volume_id container new_id s = (Inr b, s') \<and>
                volumes s' = (volumes s)(volume_id \<mapsto> volume\<lparr>v_status := ''backing-up''\<rparr>) \<and>
                trace s' = trace s @ [VolumeUpdate volume_id ''backing-up'',
                                      BackupCreate new_id,
                                      Cast (Create_backup (b_host b) new_id volume_id)]))"
proof -
  let ?h = "takeWhile (\<lambda>c. c \<noteq> CHR ''@'') (v_host volume)"
  let ?srv = "\<exists>srv \<in> set (services s). srv_topic srv = backup_topic e \<and>
               srv_availability_zone srv = v_availability_zone volume \<and>
               srv_host srv = fst (str_partition CHR ''@'' (v_host volume)) \<and>
               \<not> srv_disabled srv \<and> service_is_up e srv"
  have en: "is_backup_service_enabled e volume ?h s \<longleftrightarrow> ?srv"
    by (simp add: is_backup_service_enabled_iff str_partition_fst)
  have c1: "create e context name description volume_id container new_id s = (Inl InvalidVolume, s)"
    if "v_status volume \<noteq> ''available''"
    using that assms by (simp add: create_def volume_api_get_def)
  have c2: "create e context name description volume_id container new_id s = (Inl ServiceNotFound, s)"
    if "v_status volume = ''available''" "\<not> is_backup_service_enabled e volume ?h s"
    using that assms by (simp add: create_def volume_api_get_def str_partition_fst)
  have c3: "\<exists>b s'. create e context name description volume_id container new_id s = (Inr b, s') \<and>
                volumes s' = (volumes s)(volume_id \<mapsto> volume\<lparr>v_status := ''backing-up''\<rparr>) \<and>
                trace s' = trace s @ [VolumeUpdate volume_id ''backing-up'',
                                      BackupCreate new_id,
                                      Cast (Create_backup (b_host b) new_id volume_id)]"
    if "v_status volume = ''available''" "is_backup_service_enabled e volume ?h s"
    using create_ok[OF assms that, of name description container new_id] by simp
  from c1 c2 c3 show ?thesis unfolding en by blast
qed

theorem create_checks_before_marking_witness:
  "create (fake_env (\<lambda>k s. s)) fake_context None None ''vol1'' None ''bak2''
     (fake_db (fake_volume ''vol1'' ''in-use'' 2 ''host1@lvm'')
        (fake_backup ''bak1'' ''available'' (Some 1)) [fake_service ''host1'' False]) =
   (Inl InvalidVolume,
    fake_db (fake_volume ''vol1'' ''in-use'' 2 ''host1@lvm'')
      (fake_backup ''bak1'' ''available'' (Some 1)) [fake_service ''host1'' False]) \<and>
   create (fake_env (\<lambda>k s. s)) fake_context None None ''vol1'' None ''bak2''
     (fake_db (fake_volume ''vol1'' ''available'' 2 ''host1@lvm'')
        (fake_backup ''bak1'' ''available'' (Some 1)) [fake_service ''host1'' True]) =
   (Inl ServiceNotFound,
    fake_db (fake_volume ''vol1'' ''available'' 2 ''host1@lvm'')
      (fake_backup ''bak1'' ''available'' (Some 1)) [fake_service ''host1'' True]) \<and>
   (\<exists>b s'. create (fake_env (\<lambda>k s. s)) fake_context None None ''vol1'' None ''bak2''
             (fake_db (fake_volume ''vol1'' ''available'' 2 ''host1@lvm'')
                (fake_backup ''bak1'' ''available'' (Some 1)) [fake_service ''host1'' False]) =
           (Inr b, s') \<and>
           volumes s' ''vol1'' = Some (fake_volume ''vol1'' ''backing-up'' 2 ''host1@lvm'') \<and>
           trace s' = [VolumeUpdate ''vol1'' ''backing-up'', BackupCreate ''bak2'',
                       Cast (Create_backup (b_host b) ''bak2'' ''vol1'')])"
proof -
  let ?e = "fake_env (\<lambda>k s. s)"
  let ?b = "fake_backup ''bak1'' ''available'' (Some 1)"
  let ?vu = "fake_volume ''vol1'' ''in-use'' 2 ''host1@lvm''"
  let ?v = "fake_volume ''vol1'' ''available'' 2 ''host1@lvm''"
  have h: "fst (str_partition CHR ''@'' ''host1@lvm'') = ''host1''"
    by (simp add: str_partition_def)
  have p: "check_policy ?e fake_context ''create''"
    by (simp add: check_policy_def fake_env_def)
  have v: "volumes (fake_db ?vu ?b [fake_service ''host1'' False]) ''vol1'' = Some ?vu"
    "volumes (fake_db ?v ?b [fake_service ''host1'' True]) ''vol1'' = Some ?v"
    "volumes (fake_db ?v ?b [fake_service ''host1'' False]) ''vol1'' = Some ?v"
    by (simp_all add: fake_db_def fake_volume_def)
  have c1: "create ?e fake_context None None ''vol1'' None ''bak2''
              (fake_db ?vu ?b [fake_service ''host1'' False]) =
            (Inl InvalidVolume, fake_db ?vu ?b [fake_service ''host1'' False])"
    using create_checks_before_marking[OF p v(1)] by (simp add: fake_volume_def)
  have c2: "create ?e fake_context None None ''vol1'' None ''bak2''
              (fake_db ?v ?b [fake_service ''host1'' True]) =
            (Inl ServiceNotFound, fake_db ?v ?b [fake_service ''host1'' True])"
    using create_checks_before_marking[OF p v(2)]
    by (simp add: fake_volume_def fake_db_def fake_service_def)
  have c3: "\<exists>b s'. create ?e fake_context None None ''vol1'' None ''bak2''
             (fake_db ?v ?b [fake_service ''host1'' False]) = (Inr b, s') \<and>
           volumes s' ''vol1'' = Some (fake_volume ''vol1'' ''backing-up'' 2 ''host1@lvm'') \<and>
           trace s' = [VolumeUpdate ''vol1'' ''backing-up'', BackupCreate ''bak2'',
                       Cast (Create_backup (b_host b) ''bak2'' ''vol1'')]"
  proof -
    have "v_status ?v = ''available'' \<and>
        (\<exists>srv \<in> set (services (fake_db ?v ?b [fake_service ''host1'' False])).
               srv_topic srv = backup_topic ?e \<and>
               srv_availability_zone srv = v_availability_zone ?v \<and>
               srv_host srv = fst (str_partition CHR ''@'' (v_host ?v)) \<and>
               \<not> srv_disabled srv \<and> service_is_up ?e srv)"
      by (simp add: fake_volume_def fake_db_def fake_service_def fake_env_def h)
    with create_checks_before_marking[OF p v(3), where name = None and description = None
        and container = None and new_id = "''bak2''"]
    obtain b s' where
      "create ?e fake_context None None ''vol1'' None ''bak2''
         (fake_db ?v ?b [fake_service ''host1'' False]) = (Inr b, s')"
      "volumes s' = (volumes (fake_db ?v ?b [fake_service ''host1'' False]))
                      (''vol1'' \<mapsto> ?v\<lparr>v_status := ''backing-up''\<rparr>)"
      "trace s' = trace (fake_db ?v ?b [fake_service ''host1'' False]) @
                    [VolumeUpdate ''vol1'' ''backing-up'', BackupCreate ''bak2'',
                     Cast (Create_backup (b_host b) ''bak2'' ''vol1'')]"
      by blast
    then show ?thesis by (simp add: fake_volume_def fake_db_def)
  qed
  from c1 c2 c3 show ?thesis by blast
qed

text \<open>
  Claim C8. A backup create that succeeds returns the new backup row, stored under its id,
  with status \<^verbatim>\<open>creating\<close>, the size of the source volume, and as host the part of the
  volume's host before the first \<^verbatim>\<open>@\<close> (the whole host when it has none); the last
  effect is the \<^verbatim>\<open>create_backup\<close> cast, addressed to that stripped host.
\<close>

theorem create_backup_record:
  assumes "create e context name description volume_id container new_id s = (Inr b, s')"
    and "volumes s volume_id = Some volume"
  shows "b_status b = ''creating'' \<and>
         b_size b = Some (v_size volume) \<and>
         b_host b = fst (str_partition CHR ''@'' (v_host volume)) \<and>
         b_host b = takeWhile (\<lambda>c. c \<noteq> CHR ''@'') (v_host volume) \<and>
         CHR ''@'' \<notin> set (b_host b) \<and>
         (v_host volume = b_host b \<or> (\<exists>pool. v_host volume = b_host b @ CHR ''@'' # pool)) \<and>
         b_id b = new_id \<and> b_volume_id b = volume_id \<and>
         backups s' new_id = Some b \<and>
         last (trace s') = Cast (Create_backup (b_host b) new_id volume_id)"
proof -
  let ?h = "takeWhile (\<lambda>c. c \<noteq> CHR ''@'') (v_host volume)"
  note pre = create_Inr_D[OF assms]
  have eq: "(Inr b, s') = create e context name description volume_id container new_id s"
    using assms(1) by simp
  have b: "b = \<lparr>b_id = new_id, b_user_id = user_id context,
                b_project_id = project_id context, b_display_name = name,
                b_display_description = description, b_volume_id = volume_id,
                b_status = ''creating'', b_container = container,
                b_size = Some (v_size volume), b_host = ?h\<rparr>"
    and bk: "backups s' new_id = Some b"
    and tr: "trace s' = trace s @ [VolumeUpdate volume_id ''backing-up'', BackupCreate new_id,
                Cast (Create_backup ?h new_id volume_id)]"
    using eq
    by (simp_all add: create_ok[OF conjunct1[OF pre] assms(2) conjunct1[OF conjunct2[OF pre]]
          conjunct2[OF conjunct2[OF pre]]])
  have noat: "CHR ''@'' \<notin> set ?h" by (auto dest: set_takeWhileD)
  from b bk tr noat takeWhile_sep_shape[of "v_host volume" "CHR ''@''"]
  show ?thesis by (simp add: str_partition_fst)
qed

theorem create_backup_record_witness:
  "(\<exists>b s'. create (fake_env (\<lambda>k s. s)) fake_context None None ''vol1'' None ''bak2''
             (fake_db (fake_volume ''vol1'' ''available'' 2 ''host1@lvm'')
                (fake_backup ''bak1'' ''available'' (Some 1)) [fake_service ''host1'' False]) =
           (Inr b, s') \<and>
           b_status b = ''creating'' \<and> b_size b = Some 2 \<and> b_host b = ''host1'' \<and>
           backups s' ''bak2'' = Some b \<and>
           last (trace s') = Cast (Create_backup ''host1'' ''bak2'' ''vol1''))"
proof -
  let ?e = "fake_env (\<lambda>k s. s)"
  let ?b = "fake_backup ''bak1'' ''available'' (Some 1)"
  let ?v = "fake_volume ''vol1'' ''available'' 2 ''host1@lvm''"
  let ?s = "fake_db ?v ?b [fake_service ''host1'' False]"
  have h: "fst (str_partition CHR ''@'' ''host1@lvm'') = ''host1''"
    by (simp add: str_partition_def)
  obtain b s' where c: "create ?e fake_context None None ''vol1'' None ''bak2'' ?s = (Inr b, s')"
    by (simp add: create_def check_policy_def fake_env_def volume_api_get_def fake_db_def
          fake_volume_def str_partition_def is_backup_service_enabled_def
          service_get_all_by_topic_def fake_service_def volume_update_def backup_create_def
          Let_def)
  have v: "volumes ?s ''vol1'' = Some ?v"
    by (simp add: fake_db_def fake_volume_def)
  from create_backup_record[OF c v] have
    "b_status b = ''creating'' \<and> b_size b = Some 2 \<and> b_host b = ''host1'' \<and>
     backups s' ''bak2'' = Some b \<and>
     last (trace s') = Cast (Create_backup ''host1'' ''bak2'' ''vol1'')"
    by (simp add: fake_volume_def h)
  with c show ?thesis by blast
qed

section \<open>Properties of the quota sets API\<close>

lemma update_loop_append:
  "update_loop e c pid qs (pre @ post) s =
     (case update_loop e c pid qs pre s of
        (Inl x, s') \<Rightarrow> (Inl x, s')
      | (Inr u, s') \<Rightarrow> update_loop e c pid qs post s')"
  by (induction pre arbitrary: s)
     (auto split: option.splits sum.splits prod.splits)

lemma update_loop_unknown:
  "update_loop e c pid qs ks s =
     update_loop e c pid qs (filter (\<lambda>k. k \<in> set (resources e)) ks) s"
  by (induction ks arbitrary: s)
     (auto split: option.splits sum.splits prod.splits)

lemma validate_quota_limit_bad:
  "\<not> isinstance_int lim \<or> int_of_pyval lim < - 1 \<Longrightarrow> validate_quota_limit lim = Inl HTTPBadRequest"
  by (auto simp: validate_quota_limit_def)

text \<open>
  Claim C9. In an authorised quota-set update, take a key of the body that is a known
  resource with a valid limit, the keys before it having been processed without error.
  When \<^verbatim>\<open>db.quota_update\<close> raises \<^verbatim>\<open>ProjectQuotaNotFound\<close> for it, the controller calls
  \<^verbatim>\<open>db.quota_create\<close> with the same project, key and value and goes on with the keys
  after it instead of failing; when the creation and the rest succeed, the update returns
  the quota set read from the resulting table. When \<^verbatim>\<open>db.quota_update\<close> raises
  \<^verbatim>\<open>AdminRequired\<close>, the update raises \<^verbatim>\<open>HTTPForbidden\<close>.
\<close>

theorem update_creates_missing_row:
  assumes "authorize_update e c"
    and "map fst qs = pre @ k # post"
    and "update_loop e c pid qs pre s = (Inr (), s_pre)"
    and "k \<in> set (resources e)"
    and "map_of qs k = Some lim"
    and "validate_quota_limit lim = Inr ()"
  shows
    "(quota_update e c pid k (int_of_pyval lim) s_pre = (Inl ProjectQuotaNotFound, s_upd) \<and>
      quota_create e c pid k (int_of_pyval lim) s_upd = (Inr (), s_new) \<and>
      update_loop e c pid qs post s_new = (Inr (), s_end) \<longrightarrow>
        update e c pid (Some qs) s = (Inr (get_quotas e c pid s_end), s_end)) \<and>
     (quota_update e c pid k (int_of_pyval lim) s_pre = (Inl ProjectQuotaNotFound, s_upd) \<longrightarrow>
        update_loop e c pid qs (k # post) s_pre =
          (case quota_create e c pid k (int_of_pyval lim) s_upd of
             (Inr u, s_new) \<Rightarrow> update_loop e c pid qs post s_new
           | (Inl y, s_new) \<Rightarrow> (Inl y, s_new))) \<and>
     (quota_update e c pid k (int_of_pyval lim) s_pre = (Inl AdminRequired, s_upd) \<longrightarrow>
        update e c pid (Some qs) s = (Inl HTTPForbidden, s_upd))"
proof (intro conjI impI)
  assume a: "quota_update e c pid k (int_of_pyval lim) s_pre = (Inl ProjectQuotaNotFound, s_upd) \<and>
      quota_create e c pid k (int_of_pyval lim) s_upd = (Inr (), s_new) \<and>
      update_loop e c pid qs post s_new = (Inr (), s_end)"
  with assms(4-6) have "update_loop e c pid qs (k # post) s_pre = (Inr (), s_end)"
    by simp
  with assms(3) have "update_loop e c pid qs (pre @ k # post) s = (Inr (), s_end)"
    by (simp add: update_loop_append)
  with assms(1,2) show "update e c pid (Some qs) s = (Inr (get_quotas e c pid s_end), s_end)"
    by (simp add: update_def)
next
  assume "quota_update e c pid k (int_of_pyval lim) s_pre = (Inl ProjectQuotaNotFound, s_upd)"
  with assms(4-6) show "update_loop e c pid qs (k # post) s_pre =
          (case quota_create e c pid k (int_of_pyval lim) s_upd of
             (Inr u, s_new) \<Rightarrow> update_loop e c pid qs post s_new
           | (Inl y, s_new) \<Rightarrow> (Inl y, s_new))"
    by (simp split: prod.splits sum.splits)
next
  assume "quota_update e c pid k (int_of_pyval lim) s_pre = (Inl AdminRequired, s_upd)"
  with assms(4-6) have "update_loop e c pid qs (k # post) s_pre = (Inl HTTPForbidden, s_upd)"
    by simp
  with assms(3) have "update_loop e c pid qs (pre @ k # post) s = (Inl HTTPForbidden, s_upd)"
    by (simp add: update_loop_append)
  with assms(1,2) show "update e c pid (Some qs) s = (Inl HTTPForbidden, s_upd)"
    by (simp add: update_def)
qed

theorem update_creates_missing_row_witness:
  "update fake_quota_env fake_context ''fake'' (Some [(''volumes'', PyInt 5)]) Map.empty =
     (Inr [(''volumes'', 5), (''gigabytes'', 10), (''snapshots'', 10)],
      [(''fake'', ''volumes'') \<mapsto> 5]) \<and>
   update fake_quota_env fake_user_context ''fake'' (Some [(''volumes'', PyInt 5)]) Map.empty =
     (Inl HTTPForbidden, Map.empty)"
proof -
  let ?qs = "[(''volumes'', PyInt 5)]"
  have a: "authorize_update fake_quota_env fake_context"
    "authorize_update fake_quota_env fake_user_context"
    by (simp_all add: fake_quota_env_def)
  have m: "map fst ?qs = [] @ ''volumes'' # []" by simp
  have l: "update_loop fake_quota_env fake_context ''fake'' ?qs [] Map.empty = (Inr (), Map.empty)"
    "update_loop fake_quota_env fake_user_context ''fake'' ?qs [] Map.empty = (Inr (), Map.empty)"
    by simp_all
  have k: "''volumes'' \<in> set (resources fake_quota_env)"
    by (simp add: fake_quota_env_def)
  have v: "map_of ?qs ''volumes'' = Some (PyInt 5)" "validate_quota_limit (PyInt 5) = Inr ()"
    by (simp_all add: validate_quota_limit_def)
  have u: "quota_update fake_quota_env fake_context ''fake'' ''volumes'' (int_of_pyval (PyInt 5))
             Map.empty = (Inl ProjectQuotaNotFound, Map.empty)"
    "quota_create fake_quota_env fake_context ''fake'' ''volumes'' (int_of_pyval (PyInt 5))
             Map.empty = (Inr (), [(''fake'', ''volumes'') \<mapsto> 5])"
    "quota_update fake_quota_env fake_user_context ''fake'' ''volumes'' (int_of_pyval (PyInt 5))
             Map.empty = (Inl AdminRequired, Map.empty)"
    by (simp_all add: fake_quota_env_def db_quota_update_def db_quota_create_def
          fake_context_def fake_user_context_def)
  have g: "get_quotas fake_quota_env fake_context ''fake'' [(''fake'', ''volumes'') \<mapsto> 5] =
             [(''volumes'', 5), (''gigabytes'', 10), (''snapshots'', 10)]"
    by (simp add: get_quotas_def fake_quota_env_def)
  have c1: "update fake_quota_env fake_context ''fake'' (Some ?qs) Map.empty =
     (Inr [(''volumes'', 5), (''gigabytes'', 10), (''snapshots'', 10)],
      [(''fake'', ''volumes'') \<mapsto> 5])"
    using update_creates_missing_row[OF a(1) m l(1) k v, where s_upd = Map.empty
        and s_new = "[(''fake'', ''volumes'') \<mapsto> 5]" and s_end = "[(''fake'', ''volumes'') \<mapsto> 5]"]
      u(1,2) g
    by simp
  have c2: "update fake_quota_env fake_user_context ''fake'' (Some ?qs) Map.empty =
     (Inl HTTPForbidden, Map.empty)"
    using update_creates_missing_row[OF a(2) m l(2) k v, where s_upd = Map.empty] u(3)
    by simp
  from c1 c2 show ?thesis by simp
qed

text \<open>
  Claim C10, as the code has it. Keys of the body that are not known quota resources are
  skipped: the loop does what it does on the known keys alone. A known key whose limit is
  not an integer (a string, \<^verbatim>\<open>None\<close>, a float, a list or a dict) or is an integer less
  than -1 is rejected with \<^verbatim>\<open>HTTPBadRequest\<close> before its own write and before any key
  after it is looked at, the table staying as the keys before it left it; when no known
  key comes before it the table is unchanged. An \<^verbatim>\<open>int\<close> passes the validation exactly
  when it is at least -1; -1 itself passes. Nothing is stated here of a limit that is a
  boolean.
\<close>

theorem update_validates_each_known_key:
  "update_loop e c pid qs ks s =
     update_loop e c pid qs (filter (\<lambda>k. k \<in> set (resources e)) ks) s \<and>
   (authorize_update e c \<and> map fst qs = pre @ k # post \<and>
    update_loop e c pid qs pre s = (Inr (), s_pre) \<and>
    k \<in> set (resources e) \<and> map_of qs k = Some lim \<and>
    (lim = PyStr str \<or> lim = PyNone \<or> lim = PyOther \<or>
     (lim = PyInt n \<and> n < - 1) \<or> (lim = PyLong n \<and> n < - 1)) \<longrightarrow>
      update e c pid (Some qs) s = (Inl HTTPBadRequest, s_pre)) \<and>
   (authorize_update e c \<and> map fst qs = pre @ k # post \<and>
    (\<forall>j \<in> set pre. j \<notin> set (resources e)) \<and>
    k \<in> set (resources e) \<and> map_of qs k = Some lim \<and>
    (lim = PyStr str \<or> lim = PyNone \<or> lim = PyOther \<or>
     (lim = PyInt n \<and> n < - 1) \<or> (lim = PyLong n \<and> n < - 1)) \<longrightarrow>
      update e c pid (Some qs) s = (Inl HTTPBadRequest, s)) \<and>
   (validate_quota_limit (PyInt m) = Inr () \<longleftrightarrow> - 1 \<le> m) \<and>
   validate_quota_limit (PyInt (- 1)) = Inr ()"
proof (intro conjI impI)
  show "update_loop e c pid qs ks s =
     update_loop e c pid qs (filter (\<lambda>k. k \<in> set (resources e)) ks) s"
    by (rule update_loop_unknown)
next
  assume a: "authorize_update e c \<and> map fst qs = pre @ k # post \<and>
    update_loop e c pid qs pre s = (Inr (), s_pre) \<and>
    k \<in> set (resources e) \<and> map_of qs k = Some lim \<and>
    (lim = PyStr str \<or> lim = PyNone \<or> lim = PyOther \<or>
     (lim = PyInt n \<and> n < - 1) \<or> (lim = PyLong n \<and> n < - 1))"
  then have "\<not> isinstance_int lim \<or> int_of_pyval lim < - 1"
    by auto
  then have "validate_quota_limit lim = Inl HTTPBadRequest"
    by (rule validate_quota_limit_bad)
  with a have "update_loop e c pid qs (k # post) s_pre = (Inl HTTPBadRequest, s_pre)"
    by simp
  with a have "update_loop e c pid qs (pre @ k # post) s = (Inl HTTPBadRequest, s_pre)"
    by (simp add: update_loop_append)
  with a show "update e c pid (Some qs) s = (Inl HTTPBadRequest, s_pre)"
    by (simp add: update_def)
next
  assume a: "authorize_update e c \<and> map fst qs = pre @ k # post \<and>
    (\<forall>j \<in> set pre. j \<notin> set (resources e)) \<and>
    k \<in> set (resources e) \<and> map_of qs k = Some lim \<and>
    (lim = PyStr str \<or> lim = PyNone \<or> lim = PyOther \<or>
     (lim = PyInt n \<and> n < - 1) \<or> (lim = PyLong n \<and> n < - 1))"
  then have "filter (\<lambda>k. k \<in> set (resources e)) pre = []"
    by (simp add: filter_empty_conv)
  then have pre: "update_loop e c pid qs pre s = (Inr (), s)"
    using update_loop_unknown[of e c pid qs pre s] by simp
  from a have "\<not> isinstance_int lim \<or> int_of_pyval lim < - 1"
    by auto
  then have "validate_quota_limit lim = Inl HTTPBadRequest"
    by (rule validate_quota_limit_bad)
  with a have "update_loop e c pid qs (k # post) s = (Inl HTTPBadRequest, s)"
    by simp
  with pre have "update_loop e c pid qs (pre @ k # post) s = (Inl HTTPBadRequest, s)"
    by (simp add: update_loop_append)
  with a show "update e c pid (Some qs) s = (Inl HTTPBadRequest, s)"
    by (simp add: update_def)
next
  show "validate_quota_limit (PyInt m) = Inr () \<longleftrightarrow> - 1 \<le> m"
    by (auto simp: validate_quota_limit_def)
next
  show "validate_quota_limit (PyInt (- 1)) = Inr ()"
    by (simp add: validate_quota_limit_def)
qed

theorem update_validates_each_known_key_witness:
  "update fake_quota_env fake_context ''fake''
     (Some [(''bogus'', PyStr ''x''), (''gigabytes'', PyInt (- 2)), (''volumes'', PyInt 5)])
     Map.empty = (Inl HTTPBadRequest, Map.empty) \<and>
   update fake_quota_env fake_context ''fake''
     (Some [(''volumes'', PyInt 5), (''gigabytes'', PyStr ''many'')])
     Map.empty = (Inl HTTPBadRequest, [(''fake'', ''volumes'') \<mapsto> 5])"
proof -
  let ?qs = "[(''bogus'', PyStr ''x''), (''gigabytes'', PyInt (- 2)), (''volumes'', PyInt 5)]"
  let ?qs2 = "[(''volumes'', PyInt 5), (''gigabytes'', PyStr ''many'')]"
  have h1: "authorize_update fake_quota_env fake_context \<and>
      map fst ?qs = [''bogus''] @ ''gigabytes'' # [''volumes''] \<and>
      (\<forall>j \<in> set [''bogus'']. j \<notin> set (resources fake_quota_env)) \<and>
      ''gigabytes'' \<in> set (resources fake_quota_env) \<and>
      map_of ?qs ''gigabytes'' = Some (PyInt (- 2)) \<and>
      (PyInt (- 2) = PyStr [] \<or> PyInt (- 2) = PyNone \<or> PyInt (- 2) = PyOther \<or>
       (PyInt (- 2) = PyInt (- 2) \<and> (- 2 :: int) < - 1) \<or>
       (PyInt (- 2) = PyLong (- 2) \<and> (- 2 :: int) < - 1))"
    by (simp add: fake_quota_env_def)
  have h2: "authorize_update fake_quota_env fake_context \<and>
      map fst ?qs2 = [''volumes''] @ ''gigabytes'' # [] \<and>
      update_loop fake_quota_env fake_context ''fake'' ?qs2 [''volumes''] Map.empty =
        (Inr (), [(''fake'', ''volumes'') \<mapsto> 5]) \<and>
      ''gigabytes'' \<in> set (resources fake_quota_env) \<and>
      map_of ?qs2 ''gigabytes'' = Some (PyStr ''many'') \<and>
      (PyStr ''many'' = PyStr ''many'' \<or> PyStr ''many'' = PyNone \<or>
       PyStr ''many'' = PyOther \<or>
       (PyStr ''many'' = PyInt 0 \<and> (0 :: int) < - 1) \<or>
       (PyStr ''many'' = PyLong 0 \<and> (0 :: int) < - 1))"
    by (simp add: fake_quota_env_def validate_quota_limit_def db_quota_update_def
          db_quota_create_def fake_context_def)
  from update_validates_each_known_key[where e = fake_quota_env and c = fake_context
      and qs = ?qs and pre = "[''bogus'']" and k = "''gigabytes''" and post = "[''volumes'']"
      and lim = "PyInt (- 2)" and n = "- 2" and str = "[]" and s = Map.empty
      and pid = "''fake''"] h1
  have c1: "update fake_quota_env fake_context ''fake'' (Some ?qs) Map.empty =
              (Inl HTTPBadRequest, Map.empty)"
    by blast
  from update_validates_each_known_key[where e = fake_quota_env and c = fake_context
      and qs = ?qs2 and pre = "[''volumes'']" and k = "''gigabytes''" and post = "[]"
      and lim = "PyStr ''many''" and str = "''many''" and n = 0 and s = Map.empty
      and pid = "''fake''" and s_pre = "[(''fake'', ''volumes'') \<mapsto> 5]"] h2
  have c2: "update fake_quota_env fake_context ''fake'' (Some ?qs2) Map.empty =
              (Inl HTTPBadRequest, [(''fake'', ''volumes'') \<mapsto> 5])"
    by blast
  from c1 c2 show ?thesis by simp
qed

text \<open>
  Claim C10 as stated fails: the limits are validated one key at a time, each just before
  its write, so a bad limit is rejected after the writes of the keys before it. Whichever
  of the two keys \<^verbatim>\<open>keys()\<close> gives first, one of these two bodies is rejected with the
  first key's row already changed from 1 to 5.
\<close>

theorem update_rejects_after_write_counterexample:
  "update fake_quota_env fake_context ''fake''
     (Some [(''volumes'', PyInt 5), (''gigabytes'', PyInt (- 2))])
     [(''fake'', ''volumes'') \<mapsto> 1] = (Inl HTTPBadRequest, [(''fake'', ''volumes'') \<mapsto> 5]) \<and>
   update fake_quota_env fake_context ''fake''
     (Some [(''gigabytes'', PyInt 5), (''volumes'', PyInt (- 2))])
     [(''fake'', ''gigabytes'') \<mapsto> 1] = (Inl HTTPBadRequest, [(''fake'', ''gigabytes'') \<mapsto> 5])"
  by (simp add: update_def fake_quota_env_def validate_quota_limit_def db_quota_update_def
        fake_context_def)

section \<open>Properties of the volume manager and the LVM driver\<close>

lemma reserve_ok_iff:
  "fst (reserve delta s) = Inr delta \<longleftrightarrow>
     \<not> (0 \<le> hard_limit (gigabytes s) \<and>
        hard_limit (gigabytes s) < in_use (gigabytes s) + reserved (gigabytes s) + delta)"
  by (simp add: reserve_def Let_def)

lemma reserve_over_iff:
  "fst (reserve delta s) = Inl OverQuota \<longleftrightarrow>
     0 \<le> hard_limit (gigabytes s) \<and>
     hard_limit (gigabytes s) < in_use (gigabytes s) + reserved (gigabytes s) + delta"
  by (simp add: reserve_def Let_def)

lemma manager_extend_volume_ok:
  assumes "vols s vid = Some v"
    and "fst (reserve (new_size - v_size v) s) = Inr (new_size - v_size v)"
    and "extend_volume_drv drv v new_size = None"
  shows "manager_extend_volume drv vid new_size s =
           (Inr (),
            \<lparr>vols = (vols s)(vid \<mapsto> v\<lparr>v_size := new_size, v_status := ''available''\<rparr>),
             gigabytes = (gigabytes s)\<lparr>in_use := in_use (gigabytes s) + (new_size - v_size v)\<rparr>\<rparr>)"
proof -
  from assms(2) have "\<not> (0 \<le> hard_limit (gigabytes s) \<and>
      hard_limit (gigabytes s) < in_use (gigabytes s) + reserved (gigabytes s) + (new_size - v_size v))"
    by (simp add: reserve_ok_iff)
  with assms(1,3) show ?thesis
    by (auto simp: manager_extend_volume_def reserve_def Let_def commit_def)
qed

lemma manager_extend_volume_over_quota:
  assumes "vols s vid = Some v"
    and "fst (reserve (new_size - v_size v) s) = Inl OverQuota"
  shows "manager_extend_volume drv vid new_size s =
           (Inr (),
            \<lparr>vols = (vols s)(vid \<mapsto> v\<lparr>v_status := ''error_extending''\<rparr>),
             gigabytes = gigabytes s\<rparr>)"
proof -
  from assms(2) have "0 \<le> hard_limit (gigabytes s) \<and>
      hard_limit (gigabytes s) < in_use (gigabytes s) + reserved (gigabytes s) + (new_size - v_size v)"
    by (simp add: reserve_over_iff)
  with assms(1) show ?thesis
    by (auto simp: manager_extend_volume_def reserve_def Let_def set_status_def)
qed

lemma manager_extend_volume_driver_error:
  assumes "vols s vid = Some v"
    and "fst (reserve (new_size - v_size v) s) \<noteq> Inl OverQuota"
    and "extend_volume_drv drv v new_size = Some x"
  shows "manager_extend_volume drv vid new_size s =
           (Inr (),
            \<lparr>vols = (vols s)(vid \<mapsto> v\<lparr>v_status := ''error_extending''\<rparr>),
             gigabytes = gigabytes s\<rparr>)"
proof -
  from assms(2) have "\<not> (0 \<le> hard_limit (gigabytes s) \<and>
      hard_limit (gigabytes s) < in_use (gigabytes s) + reserved (gigabytes s) + (new_size - v_size v))"
    by (simp add: reserve_over_iff)
  with assms(1,3) show ?thesis
    by (auto simp: manager_extend_volume_def reserve_def Let_def set_status_def rollback_def)
qed

lemma map_of_metadata_update:
  "map_of (metadata_update k v kvs) = (map_of kvs)(k \<mapsto> v)"
  by (induction kvs) (auto simp: fun_eq_iff)

text \<open>
  Claim C2. For a volume in status \<^verbatim>\<open>available\<close> with current size \<open>v_size v\<close>:
  \<^verbatim>\<open>extend\<close> to a size that is not greater fails with \<^verbatim>\<open>InvalidInput\<close> and leaves the
  state, so the size and the status, unchanged; to a greater size, when the quota
  reservation and the driver succeed, the persisted size is the new size, the status is
  \<^verbatim>\<open>available\<close> again and the quota in use has grown by the difference; when the quota
  reservation fails with \<^verbatim>\<open>OverQuota\<close> or the driver fails, the size is unchanged, the
  status is \<^verbatim>\<open>error_extending\<close> and the quota usage is as before.
\<close>

theorem extend_outcomes:
  assumes "vols s vid = Some v" and "v_status v = ''available''"
  shows
    "(new_size \<le> v_size v \<longrightarrow> extend drv vid new_size s = (Inl InvalidInput, s)) \<and>
     (v_size v < new_size \<and>
      fst (reserve (new_size - v_size v) s) = Inr (new_size - v_size v) \<and>
      extend_volume_drv drv (v\<lparr>v_status := ''extending''\<rparr>) new_size = None \<longrightarrow>
        extend drv vid new_size s =
          (Inr (),
           \<lparr>vols = (vols s)(vid \<mapsto> v\<lparr>v_size := new_size, v_status := ''available''\<rparr>),
            gigabytes = (gigabytes s)\<lparr>in_use := in_use (gigabytes s) + (new_size - v_size v)\<rparr>\<rparr>)) \<and>
     (v_size v < new_size \<and>
      (fst (reserve (new_size - v_size v) s) = Inl OverQuota \<or>
       extend_volume_drv drv (v\<lparr>v_status := ''extending''\<rparr>) new_size \<noteq> None) \<longrightarrow>
        extend drv vid new_size s =
          (Inr (),
           \<lparr>vols = (vols s)(vid \<mapsto> v\<lparr>v_status := ''error_extending''\<rparr>),
            gigabytes = gigabytes s\<rparr>))"
proof -
  let ?s1 = "s\<lparr>vols := (vols s)(vid \<mapsto> v\<lparr>v_status := ''extending''\<rparr>)\<rparr>"
  let ?v1 = "v\<lparr>v_status := ''extending''\<rparr>"
  let ?d = "new_size - v_size v"
  have small: "extend drv vid new_size s = (Inl InvalidInput, s)" if "new_size \<le> v_size v"
    using that assms by (simp add: extend_def api_extend_def)
  have api: "extend drv vid new_size s = manager_extend_volume drv vid new_size ?s1"
    if "v_size v < new_size"
    using that assms by (simp add: extend_def api_extend_def set_status_def)
  have v1: "vols ?s1 vid = Some ?v1" by simp
  have res: "fst (reserve (new_size - v_size ?v1) ?s1) = fst (reserve ?d s)"
    by (simp add: reserve_def Let_def)
  have ok: "manager_extend_volume drv vid new_size ?s1 =
          (Inr (),
           \<lparr>vols = (vols s)(vid \<mapsto> v\<lparr>v_size := new_size, v_status := ''available''\<rparr>),
            gigabytes = (gigabytes s)\<lparr>in_use := in_use (gigabytes s) + ?d\<rparr>\<rparr>)"
    if "fst (reserve ?d s) = Inr ?d" "extend_volume_drv drv ?v1 new_size = None"
    using manager_extend_volume_ok[OF v1, of new_size drv] that res by simp
  have bad: "manager_extend_volume drv vid new_size ?s1 =
          (Inr (),
           \<lparr>vols = (vols s)(vid \<mapsto> v\<lparr>v_status := ''error_extending''\<rparr>),
            gigabytes = gigabytes s\<rparr>)"
    if "fst (reserve ?d s) = Inl OverQuota \<or> extend_volume_drv drv ?v1 new_size \<noteq> None"
  proof (cases "fst (reserve ?d s) = Inl OverQuota")
    case True
    then show ?thesis
      using manager_extend_volume_over_quota[OF v1, of new_size drv] res by simp
  next
    case False
    with that obtain x where "extend_volume_drv drv ?v1 new_size = Some x" by auto
    with False show ?thesis
      using manager_extend_volume_driver_error[OF v1, of new_size drv x] res by simp
  qed
  from small api ok bad show ?thesis by simp
qed

theorem extend_outcomes_witness:
  "extend (fake_driver None) ''vol1'' 1
     (fake_manager_state (fake_volume ''vol1'' ''available'' 2 ''host1'') (- 1)) =
     (Inl InvalidInput, fake_manager_state (fake_volume ''vol1'' ''available'' 2 ''host1'') (- 1)) \<and>
   extend (fake_driver None) ''vol1'' 4
     (fake_manager_state (fake_volume ''vol1'' ''available'' 2 ''host1'') (- 1)) =
     (Inr (), \<lparr>vols = [''vol1'' \<mapsto> fake_volume ''vol1'' ''available'' 4 ''host1''],
              gigabytes = \<lparr>hard_limit = - 1, in_use = 4, reserved = 0\<rparr>\<rparr>) \<and>
   extend (fake_driver (Some CinderException)) ''vol1'' 4
     (fake_manager_state (fake_volume ''vol1'' ''available'' 2 ''host1'') (- 1)) =
     (Inr (), \<lparr>vols = [''vol1'' \<mapsto> fake_volume ''vol1'' ''error_extending'' 2 ''host1''],
              gigabytes = \<lparr>hard_limit = - 1, in_use = 2, reserved = 0\<rparr>\<rparr>) \<and>
   extend (fake_driver None) ''vol1'' 4
     (fake_manager_state (fake_volume ''vol1'' ''available'' 2 ''host1'') 3) =
     (Inr (), \<lparr>vols = [''vol1'' \<mapsto> fake_volume ''vol1'' ''error_extending'' 2 ''host1''],
              gigabytes = \<lparr>hard_limit = 3, in_use = 2, reserved = 0\<rparr>\<rparr>)"
proof -
  let ?v = "fake_volume ''vol1'' ''available'' 2 ''host1''"
  have v: "vols (fake_manager_state ?v (- 1)) ''vol1'' = Some ?v"
    "vols (fake_manager_state ?v 3) ''vol1'' = Some ?v"
    by (simp_all add: fake_manager_state_def fake_volume_def)
  have a: "v_status ?v = ''available''" by (simp add: fake_volume_def)
  have c1: "extend (fake_driver None) ''vol1'' 1 (fake_manager_state ?v (- 1)) =
              (Inl InvalidInput, fake_manager_state ?v (- 1))"
    using extend_outcomes[OF v(1) a, of 1 "fake_driver None"] by (simp add: fake_volume_def)
  have c2: "extend (fake_driver None) ''vol1'' 4 (fake_manager_state ?v (- 1)) =
     (Inr (), \<lparr>vols = [''vol1'' \<mapsto> fake_volume ''vol1'' ''available'' 4 ''host1''],
              gigabytes = \<lparr>hard_limit = - 1, in_use = 4, reserved = 0\<rparr>\<rparr>)"
    using extend_outcomes[OF v(1) a, of 4 "fake_driver None"]
    by (simp add: fake_volume_def fake_manager_state_def fake_driver_def reserve_def)
  have c3: "extend (fake_driver (Some CinderException)) ''vol1'' 4 (fake_manager_state ?v (- 1)) =
     (Inr (), \<lparr>vols = [''vol1'' \<mapsto> fake_volume ''vol1'' ''error_extending'' 2 ''host1''],
              gigabytes = \<lparr>hard_limit = - 1, in_use = 2, reserved = 0\<rparr>\<rparr>)"
    using extend_outcomes[OF v(1) a, of 4 "fake_driver (Some CinderException)"]
    by (simp add: fake_volume_def fake_manager_state_def fake_driver_def reserve_def)
  have c4: "extend (fake_driver None) ''vol1'' 4 (fake_manager_state ?v 3) =
     (Inr (), \<lparr>vols = [''vol1'' \<mapsto> fake_volume ''vol1'' ''error_extending'' 2 ''host1''],
              gigabytes = \<lparr>hard_limit = 3, in_use = 2, reserved = 0\<rparr>\<rparr>)"
    using extend_outcomes[OF v(2) a, of 4 "fake_driver None"]
    by (simp add: fake_volume_def fake_manager_state_def fake_driver_def reserve_def)
  from c1 c2 c3 c4 show ?thesis by blast
qed

text \<open>
  Claim C3. In a \<^verbatim>\<open>delete_volume\<close> dispatch on an existing volume, when the driver raises
  \<^verbatim>\<open>VolumeIsBusy\<close> the manager returns \<^verbatim>\<open>True\<close> and raises nothing, the volume row is
  still there and its status is \<^verbatim>\<open>available\<close>; when the driver raises any other
  exception the status is left \<^verbatim>\<open>error_deleting\<close>.
\<close>

theorem delete_busy_rolls_back:
  assumes "vols s vid = Some v"
  shows
    "(delete_volume_drv drv v = Some VolumeIsBusy \<longrightarrow>
        manager_delete_volume drv vid s =
          (Inr True, s\<lparr>vols := (vols s)(vid \<mapsto> v\<lparr>v_status := ''available''\<rparr>)\<rparr>)) \<and>
     (delete_volume_drv drv v = Some x \<and> x \<noteq> VolumeIsBusy \<longrightarrow>
        manager_delete_volume drv vid s =
          (Inl x, s\<lparr>vols := (vols s)(vid \<mapsto> v\<lparr>v_status := ''error_deleting''\<rparr>)\<rparr>))"
  using assms by (simp add: manager_delete_volume_def set_status_def)

theorem delete_busy_rolls_back_witness:
  "manager_delete_volume (fake_driver (Some VolumeIsBusy)) ''vol1''
     (fake_manager_state (fake_volume ''vol1'' ''deleting'' 1 ''host1'') (- 1)) =
     (Inr True, fake_manager_state (fake_volume ''vol1'' ''available'' 1 ''host1'') (- 1)) \<and>
   manager_delete_volume (fake_driver (Some CinderException)) ''vol1''
     (fake_manager_state (fake_volume ''vol1'' ''deleting'' 1 ''host1'') (- 1)) =
     (Inl CinderException,
      fake_manager_state (fake_volume ''vol1'' ''error_deleting'' 1 ''host1'') (- 1))"
proof -
  let ?v = "fake_volume ''vol1'' ''deleting'' 1 ''host1''"
  have v: "vols (fake_manager_state ?v (- 1)) ''vol1'' = Some ?v"
    by (simp add: fake_manager_state_def fake_volume_def)
  have c1: "manager_delete_volume (fake_driver (Some VolumeIsBusy)) ''vol1''
              (fake_manager_state ?v (- 1)) =
            (Inr True, fake_manager_state (fake_volume ''vol1'' ''available'' 1 ''host1'') (- 1))"
    using delete_busy_rolls_back[OF v, of "fake_driver (Some VolumeIsBusy)"]
    by (simp add: fake_driver_def fake_manager_state_def fake_volume_def)
  have c2: "manager_delete_volume (fake_driver (Some CinderException)) ''vol1''
              (fake_manager_state ?v (- 1)) =
            (Inl CinderException,
             fake_manager_state (fake_volume ''vol1'' ''error_deleting'' 1 ''host1'') (- 1))"
    using delete_busy_rolls_back[OF v, of "fake_driver (Some CinderException)" CinderException]
    by (simp add: fake_driver_def fake_manager_state_def fake_volume_def)
  from c1 c2 show ?thesis by blast
qed

text \<open>
  Claim C4. A manager \<^verbatim>\<open>attach_volume\<close> request with mode \<^verbatim>\<open>rw\<close> on a detached volume
  whose \<^verbatim>\<open>readonly\<close> admin metadata is \<^verbatim>\<open>True\<close>, targeting an instance or a host (not
  both), raises \<^verbatim>\<open>InvalidVolumeAttachMode\<close>; afterwards the attach status is
  \<^verbatim>\<open>detached\<close>, the status is \<^verbatim>\<open>error_attaching\<close>, and the admin metadata holds
  \<^verbatim>\<open>attached_mode = rw\<close> and still \<^verbatim>\<open>readonly = True\<close>.
\<close>

theorem attach_rw_on_readonly:
  assumes "vols s vid = Some v"
    and "v_attach_status v = ''detached''"
    and "instance_uuid = None \<or> host_name = None"
    and "map_of (v_admin_metadata v) ''readonly'' = Some ''True''"
  shows
    "\<exists>s' v'. manager_attach_volume drv vid instance_uuid host_name mountpoint ''rw'' s =
               (Inl InvalidVolumeAttachMode, s') \<and>
             vols s' vid = Some v' \<and>
             v_attach_status v' = ''detached'' \<and>
             v_status v' = ''error_attaching'' \<and>
             map_of (v_admin_metadata v') ''attached_mode'' = Some ''rw'' \<and>
             map_of (v_admin_metadata v') ''readonly'' = Some ''True'' \<and>
             v_admin_metadata v' = metadata_update ''attached_mode'' ''rw'' (v_admin_metadata v)"
proof -
  let ?v' = "v\<lparr>v_admin_metadata := metadata_update ''attached_mode'' ''rw'' (v_admin_metadata v),
               v_status := ''error_attaching'', v_attach_status := ''detached''\<rparr>"
  from assms have
    "manager_attach_volume drv vid instance_uuid host_name mountpoint ''rw'' s =
       (Inl InvalidVolumeAttachMode, s\<lparr>vols := (vols s)(vid \<mapsto> ?v')\<rparr>)"
    by (auto simp: manager_attach_volume_def)
  moreover have "vols (s\<lparr>vols := (vols s)(vid \<mapsto> ?v')\<rparr>) vid = Some ?v'" by simp
  moreover have "map_of (v_admin_metadata ?v') ''attached_mode'' = Some ''rw''"
    "map_of (v_admin_metadata ?v') ''readonly'' = Some ''True''"
    using assms(4) by (simp_all add: map_of_metadata_update)
  ultimately show ?thesis by (intro exI[of _ "s\<lparr>vols := (vols s)(vid \<mapsto> ?v')\<rparr>"] exI[of _ ?v']) simp
qed

theorem attach_rw_on_readonly_witness:
  "(\<exists>s' v'. manager_attach_volume (fake_driver None) ''vol1''
               (Some ''12345678-1234-5678-1234-567812345678'') None ''/dev/sdf'' ''rw''
               (fake_manager_state
                  ((fake_volume ''vol1'' ''available'' 1 ''host1'')
                     \<lparr>v_admin_metadata := [(''readonly'', ''True'')]\<rparr>) (- 1)) =
               (Inl InvalidVolumeAttachMode, s') \<and>
             vols s' ''vol1'' = Some v' \<and> v_attach_status v' = ''detached'' \<and>
             v_status v' = ''error_attaching'' \<and>
             v_admin_metadata v' = [(''readonly'', ''True''), (''attached_mode'', ''rw'')]) \<and>
   (\<exists>s' v'. manager_attach_volume (fake_driver None) ''vol1''
               None (Some ''fake_host'') ''/dev/sdf'' ''rw''
               (fake_manager_state
                  ((fake_volume ''vol1'' ''available'' 1 ''host1'')
                     \<lparr>v_admin_metadata := [(''readonly'', ''True'')]\<rparr>) (- 1)) =
               (Inl InvalidVolumeAttachMode, s') \<and>
             vols s' ''vol1'' = Some v' \<and> v_attach_status v' = ''detached'' \<and>
             v_status v' = ''error_attaching'' \<and>
             v_admin_metadata v' = [(''readonly'', ''True''), (''attached_mode'', ''rw'')])"
proof -
  let ?v = "(fake_volume ''vol1'' ''available'' 1 ''host1'')
              \<lparr>v_admin_metadata := [(''readonly'', ''True'')]\<rparr>"
  have v: "vols (fake_manager_state ?v (- 1)) ''vol1'' = Some ?v"
    by (simp add: fake_manager_state_def fake_volume_def)
  have d: "v_attach_status ?v = ''detached''" by (simp add: fake_volume_def)
  have r: "map_of (v_admin_metadata ?v) ''readonly'' = Some ''True''" by simp
  have m: "metadata_update ''attached_mode'' ''rw'' (v_admin_metadata ?v) =
             [(''readonly'', ''True''), (''attached_mode'', ''rw'')]"
    by simp
  have t1: "Some ''12345678-1234-5678-1234-567812345678'' = None \<or> (None :: string option) = None"
    and t2: "(None :: string option) = None \<or> Some ''fake_host'' = None"
    by simp_all
  from attach_rw_on_readonly[OF v d t1 r, of "fake_driver None" "''/dev/sdf''"]
    attach_rw_on_readonly[OF v d t2 r, of "fake_driver None" "''/dev/sdf''"]
  show ?thesis unfolding m by blast
qed

text \<open>
  Claim C7. The driver's \<^verbatim>\<open>migrate_volume\<close> returns \<^verbatim>\<open>(False, None)\<close> when the
  destination host has no location info, when the location info is malformed (fewer than
  three fields), when its driver class is not the driver's, when its host is not the
  driver's, and when the volume is not \<^verbatim>\<open>available\<close>; it returns \<^verbatim>\<open>moved = True\<close> exactly
  when the location info names the driver's class and host and the volume is
  \<^verbatim>\<open>available\<close>; the model update is \<^verbatim>\<open>None\<close> in every case.
\<close>

theorem migrate_volume_policy:
  "(location_info = None \<longrightarrow> migrate_volume h v location_info = (False, None)) \<and>
   (location_info = Some info \<and> length (str_split CHR '':'' info) < 3 \<longrightarrow>
      migrate_volume h v location_info = (False, None)) \<and>
   (location_info = Some info \<and> str_split CHR '':'' info = dest_type # dest_hostname # rest \<and>
    dest_type \<noteq> ''LVMVolumeDriver'' \<longrightarrow>
      migrate_volume h v location_info = (False, None)) \<and>
   (location_info = Some info \<and> str_split CHR '':'' info = dest_type # dest_hostname # rest \<and>
    dest_hostname \<noteq> h \<longrightarrow>
      migrate_volume h v location_info = (False, None)) \<and>
   (v_status v \<noteq> ''available'' \<longrightarrow> migrate_volume h v location_info = (False, None)) \<and>
   (fst (migrate_volume h v location_info) \<longleftrightarrow>
      (\<exists>info dest_vg extras. location_info = Some info \<and>
         str_split CHR '':'' info = ''LVMVolumeDriver'' # h # dest_vg # extras \<and>
         v_status v = ''available'')) \<and>
   snd (migrate_volume h v location_info) = None"
  by (cases location_info; cases "str_split CHR '':'' (the location_info)";
      auto simp: migrate_volume_def split: list.splits)

theorem migrate_volume_policy_witness:
  "migrate_volume ''myhost'' (fake_volume ''test'' ''available'' 1 ''myhost'') None = (False, None) \<and>
   migrate_volume ''myhost'' (fake_volume ''test'' ''available'' 1 ''myhost'') (Some ''foo'') =
     (False, None) \<and>
   migrate_volume ''myhost'' (fake_volume ''test'' ''available'' 1 ''myhost'')
     (Some ''FooDriver:foo:bar'') = (False, None) \<and>
   migrate_volume ''myhost'' (fake_volume ''test'' ''available'' 1 ''myhost'')
     (Some ''LVMVolumeDriver:foo:bar'') = (False, None) \<and>
   migrate_volume ''myhost'' (fake_volume ''test'' ''in-use'' 1 ''myhost'')
     (Some ''LVMVolumeDriver:myhost:bar'') = (False, None) \<and>
   migrate_volume ''myhost'' (fake_volume ''test'' ''available'' 1 ''myhost'')
     (Some ''LVMVolumeDriver:myhost:cinder-volumes:default:0'') = (True, None)"
proof -
  let ?v = "fake_volume ''test'' ''available'' 1 ''myhost''"
  let ?u = "fake_volume ''test'' ''in-use'' 1 ''myhost''"
  note p = migrate_volume_policy[where h = "''myhost''"]
  have c1: "migrate_volume ''myhost'' ?v None = (False, None)"
    using p[where v = ?v and location_info = None] by simp
  have c2: "migrate_volume ''myhost'' ?v (Some ''foo'') = (False, None)"
    using p[where v = ?v and location_info = "Some ''foo''" and info = "''foo''"] by simp
  have c3: "migrate_volume ''myhost'' ?v (Some ''FooDriver:foo:bar'') = (False, None)"
    using p[where v = ?v and location_info = "Some ''FooDriver:foo:bar''"
        and info = "''FooDriver:foo:bar''" and dest_type = "''FooDriver''"
        and dest_hostname = "''foo''" and rest = "[''bar'']"] by simp
  have c4: "migrate_volume ''myhost'' ?v (Some ''LVMVolumeDriver:foo:bar'') = (False, None)"
    using p[where v = ?v and location_info = "Some ''LVMVolumeDriver:foo:bar''"
        and info = "''LVMVolumeDriver:foo:bar''" and dest_type = "''LVMVolumeDriver''"
        and dest_hostname = "''foo''" and rest = "[''bar'']"] by simp
  have c5: "migrate_volume ''myhost'' ?u (Some ''LVMVolumeDriver:myhost:bar'') = (False, None)"
    using p[where v = ?u and location_info = "Some ''LVMVolumeDriver:myhost:bar''"]
    by (simp add: fake_volume_def)
  have "fst (migrate_volume ''myhost'' ?v (Some ''LVMVolumeDriver:myhost:cinder-volumes:default:0''))
        \<and> snd (migrate_volume ''myhost'' ?v
                 (Some ''LVMVolumeDriver:myhost:cinder-volumes:default:0'')) = None"
    using p[where v = ?v
        and location_info = "Some ''LVMVolumeDriver:myhost:cinder-volumes:default:0''"]
    by (simp add: fake_volume_def)
  then have c6: "migrate_volume ''myhost'' ?v
      (Some ''LVMVolumeDriver:myhost:cinder-volumes:default:0'') = (True, None)"
    by (simp add: prod_eq_iff)
  from c1 c2 c3 c4 c5 c6 show ?thesis by blast
qed

end
